theory Spec2Isabelle
  imports Complex_Main
begin

section \<open>Common Python values\<close>

text \<open>
  The exceptions the modelled functions raise or let through. A function that can raise
  returns \<open>py_error + 'a\<close>, with \<open>Inl\<close> for the exception.
\<close>

datatype py_error =
    TypeError
  | ValueError
  | KeyError
  | AttributeError
  | OSError
  | InternalStopWorkerException
  | WebsocketWorkerRemovedException
  | WebsocketWorkerTimeoutException
  | WebsocketWorkerConnectionClosedException

text \<open>\<open>mapadroid.utils.collections.Location\<close>: a latitude and a longitude (Python floats,
  here reals: the code only compares, subtracts and copies them).\<close>

record Location =
  lat :: real
  lng :: real

section \<open>Telemetry store: \<open>PlayerData\<close>\<close>

text \<open>
  \<^verbatim>\<open>src/mapadroid/data_handler/mitm_data/PlayerData.py\<close>.

  An element of a map-objects payload's \<open>cells\<close> list. \<open>__parse_gmo_for_location\<close> builds
  \<open>set(cells)\<close>, which hashes every element: a cell identifier (an integer) is hashable, a
  cell given as a dictionary is not and makes \<open>set\<close> raise \<open>TypeError\<close>.
\<close>

datatype cell = CellId int | CellDict

fun hashable :: "cell \<Rightarrow> bool" where
  "hashable (CellId _) = True"
| "hashable CellDict = False"

text \<open>The payload dictionary, as far as \<open>PlayerData\<close> reads it: \<open>gmo_payload.get("cells", None)\<close>
  is \<open>None\<close> when the key is absent.\<close>

record gmo_payload =
  cells :: "cell list option"

text \<open>
  The fields of \<open>PlayerData.__init__\<close>. The latest-data holder
  (\<open>LatestMitmDataHolder\<close>) is not part of these sources: its state is the type parameter
  \<open>'h\<close> and its \<open>update\<close> method is a parameter of \<open>update_latest\<close>.
\<close>

record 'h PlayerData =
  level :: int
  poke_stop_visits :: int
  injected :: bool
  latest_data_holder :: 'h
  last_cell_ids :: "cell list"
  last_possibly_moved :: "int option"

definition init_PlayerData :: "'h \<Rightarrow> 'h PlayerData" where
  "init_PlayerData h =
     \<lparr>level = 0, poke_stop_visits = 0, injected = False, latest_data_holder = h,
      last_cell_ids = [], last_possibly_moved = Some 0\<rparr>"

text \<open>
  \<^verbatim>\<open>
  def __parse_gmo_for_location(self, gmo_payload: Dict, timestamp: int):
      cells = gmo_payload.get("cells", None)
      if not cells:
          return
      if bool(set(cells).intersection(self.__last_cell_ids)):
          self.__last_cell_ids = cells
          self.__last_possibly_moved = timestamp
  \<close>
  \<open>timestamp\<close> is \<open>update_latest\<close>'s \<open>timestamp_received: Optional[int]\<close>, so the stored
  value is an option too.
\<close>

definition parse_gmo_for_location ::
  "'h PlayerData \<Rightarrow> gmo_payload \<Rightarrow> int option \<Rightarrow> py_error + 'h PlayerData" where
  "parse_gmo_for_location pd gmo timestamp =
     (case cells gmo of
        None \<Rightarrow> Inr pd
      | Some cs \<Rightarrow>
          if cs = [] then Inr pd
          else if \<not> list_all hashable cs \<or> \<not> list_all hashable (last_cell_ids pd)
          then Inl TypeError
          else if set cs \<inter> set (last_cell_ids pd) \<noteq> {}
          then Inr (pd\<lparr>last_cell_ids := cs, last_possibly_moved := timestamp\<rparr>)
          else Inr pd)"

text \<open>
  \<^verbatim>\<open>
  async def update_latest(self, key, value, timestamp_received=None,
                          timestamp_of_data_retrieval=None, location=None) -> None:
      self._latest_data_holder.update(key, value, timestamp_received,
                                      timestamp_of_data_retrieval, location)
      if key == "106":
          self.__parse_gmo_for_location(value, timestamp_received)
  \<close>
\<close>

definition update_latest ::
  "('h \<Rightarrow> string \<Rightarrow> gmo_payload \<Rightarrow> int option \<Rightarrow> int option \<Rightarrow> Location option \<Rightarrow> 'h) \<Rightarrow>
   'h PlayerData \<Rightarrow> string \<Rightarrow> gmo_payload \<Rightarrow> int option \<Rightarrow> int option \<Rightarrow> Location option \<Rightarrow>
   py_error + 'h PlayerData" where
  "update_latest holder_update pd key val timestamp_received timestamp_of_data_retrieval location =
     (let pd' = pd\<lparr>latest_data_holder :=
                  holder_update (latest_data_holder pd) key val timestamp_received
                    timestamp_of_data_retrieval location\<rparr>
      in if key = ''106'' then parse_gmo_for_location pd' val timestamp_received
         else Inr pd')"

definition get_last_possibly_moved :: "'h PlayerData \<Rightarrow> int option" where
  "get_last_possibly_moved pd = last_possibly_moved pd"

section \<open>Command transport: \<open>Communicator\<close>\<close>

text \<open>
  \<^verbatim>\<open>src/mapadroid/websocket/communicator.py\<close>.

  \<open>MessageTyping\<close> is \<open>Union[str, bytes]\<close>. \<open>ScreenshotType\<close> (of \<open>madGlobals\<close>, not part of
  these sources) is the enumeration whose members \<open>JPEG\<close> and \<open>PNG\<close> the code names.
\<close>

datatype MessageTyping = Str string | Bytes string

datatype ScreenshotType = JPEG | PNG

text \<open>
  What an operation does to the session and the file system, in order. \<open>Acquire\<close> and
  \<open>Release\<close> are the entry and the exit of \<open>async with self.__send_mutex\<close>;
  \<open>SendAndWait\<close> is one call of \<open>websocket_client_entry.send_and_wait\<close> (message, timeout,
  byte command), which sends the command and awaits its reply; \<open>WriteFile\<close> is the
  \<open>fh.write\<close> under \<open>async_open(path, "wb")\<close>.
\<close>

datatype event =
    Acquire
  | Release
  | SendAndWait MessageTyping real "nat option"
  | WriteFile string string

text \<open>\<open>send_and_wait\<close> belongs to \<open>WebsocketConnectedClientEntry\<close>, not part of these sources.
  What it gives back is a parameter of every operation: an exception, \<open>None\<close>, or the
  device's reply.\<close>

type_synonym reply = "py_error + MessageTyping option"

record Communicator =
  command_timeout :: real

definition CRLF :: string where
  "CRLF = [CHR 0x0D, CHR 0x0A]"

text \<open>\<open>str(n)\<close> for an integer: decimal digits, with a minus sign when negative.\<close>

fun str_of_nat :: "nat \<Rightarrow> string" where
  "str_of_nat n =
     (if n < 10 then [''0123456789'' ! n]
      else str_of_nat (n div 10) @ [''0123456789'' ! (n mod 10)])"

definition str_of_int :: "int \<Rightarrow> string" where
  "str_of_int i = (if i < 0 then CHR ''-'' # str_of_nat (nat (- i)) else str_of_nat (nat i))"

text \<open>\<open>sub in s\<close> on strings.\<close>

fun str_contains :: "string \<Rightarrow> string \<Rightarrow> bool" where
  "str_contains sub [] = (sub = [])"
| "str_contains sub (c # cs) = (take (length sub) (c # cs) = sub \<or> str_contains sub cs)"

text \<open>\<open>s.strip()\<close>: the characters Python counts as white space, among the first 256 code
  points, are removed at both ends.\<close>

definition is_space :: "char \<Rightarrow> bool" where
  "is_space c = (c \<in> set [CHR 0x09, CHR 0x0A, CHR 0x0B, CHR 0x0C, CHR 0x0D, CHR 0x1C, CHR 0x1D,
                           CHR 0x1E, CHR 0x1F, CHR 0x20, CHR 0x85, CHR 0xA0])"

definition strip :: "string \<Rightarrow> string" where
  "strip s = rev (dropWhile is_space (rev (dropWhile is_space s)))"

text \<open>
  \<^verbatim>\<open>
  async def __run_get_gesponse(self, message, timeout: float = None):
      async with self.__send_mutex:
          timeout = self.__command_timeout if timeout is None else timeout
          return await self.websocket_client_entry.send_and_wait(
              message, timeout=timeout, worker_instance=self.worker_instance_ref)
  \<close>
  The lock is released when the block is left, also by an exception.
\<close>

definition run_get_gesponse ::
  "Communicator \<Rightarrow> MessageTyping \<Rightarrow> real option \<Rightarrow> reply \<Rightarrow> event list \<times> reply" where
  "run_get_gesponse c message timeout r =
     (let t = (case timeout of None \<Rightarrow> command_timeout c | Some t \<Rightarrow> t)
      in ([Acquire, SendAndWait message t None, Release], r))"

text \<open>
  \<^verbatim>\<open>
  async def __run_and_ok_bytes(self, message, timeout: float, byte_command: int = None) -> bool:
      async with self.__send_mutex:
          result = await self.websocket_client_entry.send_and_wait(
              message, timeout, self.worker_instance_ref, byte_command=byte_command)
          return result is not None and "OK" == result.strip()
  \<close>
  A \<open>bytes\<close> reply never equals the string \<open>"OK"\<close>.
\<close>

definition run_and_ok_bytes ::
  "Communicator \<Rightarrow> MessageTyping \<Rightarrow> real \<Rightarrow> nat option \<Rightarrow> reply \<Rightarrow>
   event list \<times> (py_error + bool)" where
  "run_and_ok_bytes c message timeout byte_command r =
     ([Acquire, SendAndWait message timeout byte_command, Release],
      (case r of
         Inl e \<Rightarrow> Inl e
       | Inr None \<Rightarrow> Inr False
       | Inr (Some (Str s)) \<Rightarrow> Inr (''OK'' = strip s)
       | Inr (Some (Bytes b)) \<Rightarrow> Inr False))"

definition run_and_ok ::
  "Communicator \<Rightarrow> MessageTyping \<Rightarrow> real \<Rightarrow> reply \<Rightarrow> event list \<times> (py_error + bool)" where
  "run_and_ok c command timeout r = run_and_ok_bytes c command timeout None r"

text \<open>
  \<^verbatim>\<open>
  async def passthrough(self, command) -> Optional[MessageTyping]:
      return await self.websocket_client_entry.send_and_wait(
          "passthrough {}".format(command), self.__command_timeout, self.worker_instance_ref)
  \<close>
\<close>

definition passthrough :: "Communicator \<Rightarrow> string \<Rightarrow> reply \<Rightarrow> event list \<times> reply" where
  "passthrough c command r =
     ([SendAndWait (Str (''passthrough '' @ command)) (command_timeout c) None], r)"

text \<open>\<open>magisk_off\<close> and \<open>magisk_on\<close> await \<open>passthrough\<close> and return \<open>None\<close>.\<close>

definition magisk_off :: "Communicator \<Rightarrow> reply \<Rightarrow> event list \<times> (py_error + unit)" where
  "magisk_off c r =
     (case passthrough c ''su -c magiskhide --disable'' r of
        (es, Inl e) \<Rightarrow> (es, Inl e)
      | (es, Inr _) \<Rightarrow> (es, Inr ()))"

definition magisk_on :: "Communicator \<Rightarrow> reply \<Rightarrow> event list \<times> (py_error + unit)" where
  "magisk_on c r =
     (case passthrough c ''su -c magiskhide --enable'' r of
        (es, Inl e) \<Rightarrow> (es, Inl e)
      | (es, Inr _) \<Rightarrow> (es, Inr ()))"

text \<open>The operations that format a text command and go through \<open>__run_and_ok\<close>.\<close>

definition start_app :: "Communicator \<Rightarrow> string \<Rightarrow> reply \<Rightarrow> event list \<times> (py_error + bool)" where
  "start_app c package_name r =
     run_and_ok c (Str (''more start '' @ package_name @ CRLF)) (command_timeout c) r"

definition stop_app :: "Communicator \<Rightarrow> string \<Rightarrow> reply \<Rightarrow> event list \<times> (py_error + bool)" where
  "stop_app c package_name r =
     (case run_and_ok c (Str (''more stop '' @ package_name @ CRLF)) (command_timeout c) r of
        (es, Inl e) \<Rightarrow> (es, Inl e)
      | (es, Inr ok) \<Rightarrow> if \<not> ok then (es, Inr False) else (es, Inr True))"

definition reboot :: "Communicator \<Rightarrow> reply \<Rightarrow> event list \<times> (py_error + bool)" where
  "reboot c r = run_and_ok c (Str (''more reboot now'' @ CRLF)) (command_timeout c) r"

definition restart_app :: "Communicator \<Rightarrow> string \<Rightarrow> reply \<Rightarrow> event list \<times> (py_error + bool)" where
  "restart_app c package_name r =
     run_and_ok c (Str (''more restart '' @ package_name @ CRLF)) (command_timeout c) r"

definition reset_app_data :: "Communicator \<Rightarrow> string \<Rightarrow> reply \<Rightarrow> event list \<times> (py_error + bool)" where
  "reset_app_data c package_name r =
     run_and_ok c (Str (''more reset '' @ package_name @ CRLF)) (command_timeout c) r"

definition clear_app_cache :: "Communicator \<Rightarrow> string \<Rightarrow> reply \<Rightarrow> event list \<times> (py_error + bool)" where
  "clear_app_cache c package_name r =
     run_and_ok c (Str (''more cache '' @ package_name @ CRLF)) (command_timeout c) r"

definition turn_screen_on :: "Communicator \<Rightarrow> reply \<Rightarrow> event list \<times> (py_error + bool)" where
  "turn_screen_on c r = run_and_ok c (Str (''more screen on'' @ CRLF)) (command_timeout c) r"

text \<open>\<open>click\<close> is called with integer coordinates, on which \<open>int(round(x))\<close> is the identity.\<close>

definition click :: "Communicator \<Rightarrow> int \<Rightarrow> int \<Rightarrow> reply \<Rightarrow> event list \<times> (py_error + bool)" where
  "click c click_x click_y r =
     run_and_ok c (Str (''screen click '' @ str_of_int click_x @ '' '' @ str_of_int click_y @ CRLF))
       (command_timeout c) r"

definition back_button :: "Communicator \<Rightarrow> reply \<Rightarrow> event list \<times> (py_error + bool)" where
  "back_button c r = run_and_ok c (Str (''screen back'' @ CRLF)) (command_timeout c) r"

definition home_button :: "Communicator \<Rightarrow> reply \<Rightarrow> event list \<times> (py_error + bool)" where
  "home_button c r = run_and_ok c (Str ''touch keyevent 3'') (command_timeout c) r"

definition enter_text :: "Communicator \<Rightarrow> string \<Rightarrow> reply \<Rightarrow> event list \<times> (py_error + bool)" where
  "enter_text c txt r = run_and_ok c (Str (''touch text '' @ txt)) (command_timeout c) r"

text \<open>The operations that go through \<open>__run_get_gesponse\<close> with the default timeout.\<close>

definition get_screensize :: "Communicator \<Rightarrow> reply \<Rightarrow> event list \<times> reply" where
  "get_screensize c r = run_get_gesponse c (Str ''screen size'') None r"

definition uiautomator :: "Communicator \<Rightarrow> reply \<Rightarrow> event list \<times> reply" where
  "uiautomator c r = run_get_gesponse c (Str ''more uiautomator'') None r"

text \<open>
  \<^verbatim>\<open>
  async def terminate_connection(self) -> bool:
      try:
          return await self.__run_and_ok("exit\r\n", timeout=5)
      except WebsocketWorkerConnectionClosedException:
          return True
  \<close>
\<close>

definition terminate_connection :: "Communicator \<Rightarrow> reply \<Rightarrow> event list \<times> (py_error + bool)" where
  "terminate_connection c r =
     (case run_and_ok c (Str (''exit'' @ CRLF)) 5 r of
        (es, Inl e) \<Rightarrow>
          if e = WebsocketWorkerConnectionClosedException then (es, Inr True) else (es, Inl e)
      | (es, Inr ok) \<Rightarrow> (es, Inr ok))"

text \<open>
  \<^verbatim>\<open>
  async def get_screenshot(self, path: str, quality: int = 70,
                           screenshot_type: ScreenshotType = ScreenshotType.JPEG) -> bool:
      if quality < 10 or quality > 100:
          self.logger.error("Invalid quality value passed for screenshots")
          return False
      screenshot_type_str: str = "jpeg"
      if screenshot_type == ScreenshotType.PNG:
          screenshot_type_str = "png"
      encoded = await self.__run_get_gesponse(
          "screen capture {} {}\r\n".format(screenshot_type_str, quality))
      if encoded is None:
          return False
      elif isinstance(encoded, str):
          if "KO: " in encoded:
              return False
          elif "OK:" not in encoded:
              return False
          return False
      else:
          async with async_open(path, "wb") as fh:
              await fh.write(encoded)
          return True
  \<close>
  \<open>wr\<close> is what opening and writing the file does: \<open>None\<close> when it succeeds, the
  exception otherwise.
\<close>

definition get_screenshot ::
  "Communicator \<Rightarrow> string \<Rightarrow> int \<Rightarrow> ScreenshotType \<Rightarrow> reply \<Rightarrow> py_error option \<Rightarrow>
   event list \<times> (py_error + bool)" where
  "get_screenshot c path quality screenshot_type r wr =
     (if quality < 10 \<or> quality > 100 then ([], Inr False)
      else
        let screenshot_type_str = (if screenshot_type = PNG then ''png'' else ''jpeg'');
            (es, encoded) =
              run_get_gesponse c
                (Str (''screen capture '' @ screenshot_type_str @ '' '' @ str_of_int quality @ CRLF))
                None r
        in case encoded of
             Inl e \<Rightarrow> (es, Inl e)
           | Inr None \<Rightarrow> (es, Inr False)
           | Inr (Some (Str s)) \<Rightarrow>
               if str_contains ''KO: '' s then (es, Inr False)
               else if \<not> str_contains ''OK:'' s then (es, Inr False)
               else (es, Inr False)
           | Inr (Some (Bytes b)) \<Rightarrow>
               (case wr of
                  Some e \<Rightarrow> (es, Inl e)
                | None \<Rightarrow> (es @ [WriteFile path b], Inr True)))"

subsection \<open>Two callers on one session\<close>

text \<open>
  The worker's tasks are coroutines on one event loop: a task runs until it awaits, and
  \<open>async with self.__send_mutex\<close> and \<open>send_and_wait\<close> are the points where an operation
  of the communicator awaits. A task is the events its operation still has to perform;
  \<open>Awaiting\<close> is a task whose command has been sent and whose reply has not arrived.
  A step of a task that is \<open>Ready\<close> performs its next event: \<open>Acquire\<close> is possible only
  while the lock is free, \<open>SendAndWait\<close> puts one more command in flight and leaves the
  task \<open>Awaiting\<close>. A step of an \<open>Awaiting\<close> task is the arrival of its reply.
\<close>

datatype task = Ready "event list" | Awaiting "event list"

record session =
  locked :: bool
  in_flight :: nat

fun task_step :: "session \<Rightarrow> task \<Rightarrow> (session \<times> task) option" where
  "task_step s (Awaiting es) = Some (s\<lparr>in_flight := in_flight s - 1\<rparr>, Ready es)"
| "task_step s (Ready []) = None"
| "task_step s (Ready (Acquire # es)) =
     (if locked s then None else Some (s\<lparr>locked := True\<rparr>, Ready es))"
| "task_step s (Ready (Release # es)) = Some (s\<lparr>locked := False\<rparr>, Ready es)"
| "task_step s (Ready (SendAndWait m t b # es)) =
     Some (s\<lparr>in_flight := Suc (in_flight s)\<rparr>, Awaiting es)"
| "task_step s (Ready (WriteFile p d # es)) = Some (s, Ready es)"

text \<open>Two tasks under a schedule: \<open>True\<close> lets the first task take a step, \<open>False\<close> the
  second. The result is \<open>None\<close> when the schedule picks a task that cannot move.\<close>

fun run2 :: "session \<times> task \<times> task \<Rightarrow> bool list \<Rightarrow> (session \<times> task \<times> task) option" where
  "run2 cfg [] = Some cfg"
| "run2 (s, a, b) (True # sch) =
     (case task_step s a of None \<Rightarrow> None | Some (s', a') \<Rightarrow> run2 (s', a', b) sch)"
| "run2 (s, a, b) (False # sch) =
     (case task_step s b of None \<Rightarrow> None | Some (s', b') \<Rightarrow> run2 (s', a, b') sch)"

text \<open>\<open>bracketed h es\<close>: starting with the lock held (\<open>h\<close>) or not, the events \<open>es\<close> call
  \<open>send_and_wait\<close> only while the lock is held, acquire it only when they do not hold it,
  and end without it. An operation holds the send lock for the whole of each
  send-and-await exactly when its events are \<open>bracketed False\<close>.\<close>

fun bracketed :: "bool \<Rightarrow> event list \<Rightarrow> bool" where
  "bracketed h [] = (\<not> h)"
| "bracketed h (Acquire # es) = (\<not> h \<and> bracketed True es)"
| "bracketed h (Release # es) = (h \<and> bracketed False es)"
| "bracketed h (SendAndWait m t b # es) = (h \<and> bracketed h es)"
| "bracketed h (WriteFile p d # es) = bracketed h es"

fun rest :: "task \<Rightarrow> event list" where
  "rest (Ready es) = es"
| "rest (Awaiting es) = es"

fun awaiting :: "task \<Rightarrow> bool" where
  "awaiting (Ready es) = False"
| "awaiting (Awaiting es) = True"

fun holds :: "event list \<Rightarrow> bool" where
  "holds [] = False"
| "holds (Acquire # es) = False"
| "holds (Release # es) = True"
| "holds (SendAndWait m t b # es) = True"
| "holds (WriteFile p d # es) = holds es"

definition held :: "task \<Rightarrow> bool" where
  "held a = (awaiting a \<or> holds (rest a))"

text \<open>The invariant of two bracketed tasks: the lock is held by at most one of them, it is
  taken exactly when one holds it, and the commands in flight are those of the awaiting
  tasks.\<close>

definition serial :: "session \<times> task \<times> task \<Rightarrow> bool" where
  "serial cfg = (case cfg of (s, a, b) \<Rightarrow>
     bracketed (held a) (rest a) \<and> bracketed (held b) (rest b) \<and>
     (locked s = (held a \<or> held b)) \<and> \<not> (held a \<and> held b) \<and>
     in_flight s = (if awaiting a then 1 else 0) + (if awaiting b then 1 else 0))"

section \<open>Control loop: \<open>WorkerBase\<close>\<close>

text \<open>
  \<^verbatim>\<open>src/mapadroid/worker/WorkerBase.py\<close>.

  \<open>ScreenType\<close> (of \<open>mapadroid.ocr.screen_type\<close>, not part of these sources) is an
  enumeration; these are the members \<open>_ensure_pogo_topmost\<close> names, and \<open>OtherScreen\<close>
  stands for every member it does not name.
\<close>

datatype ScreenType =
    UNDEFINED | POGO | QUEST | ERROR | BLACK | CLOSE | GAMEDATA | DISABLED | UPDATE
  | FAILURE | NOGGL | GPS | SN | NOTRESPONDING | OtherScreen nat

text \<open>The fields of \<open>WorkerBase.__init__\<close> that \<open>check_walker\<close> and \<open>_ensure_pogo_topmost\<close>
  read or write.\<close>

record WorkerBase =
  workerstart :: "int option"
  same_screen_count :: int
  last_screen_type :: ScreenType
  loginerrorcounter :: int

definition init_WorkerBase :: WorkerBase where
  "init_WorkerBase =
     \<lparr>workerstart = None, same_screen_count = 0, last_screen_type = UNDEFINED,
      loginerrorcounter = 0\<rparr>"

subsection \<open>\<open>check_walker\<close>\<close>








subsection \<open>\<open>_ensure_pogo_topmost\<close>\<close>

text \<open>
  The methods of the worker that one pass of the loop awaits. They talk to the device and
  the database; what each does there is not followed here. In one pass each is awaited at
  most once, so a pass is given what each would do: raise, or return a value (of which
  only \<open>_restart_pogo\<close>'s boolean is read).
\<close>

datatype helper =
    StartPogo | StopPogo | RestartPogo | RestartPogoSafe | Reboot | ClearAppCache | ResetAppData

text \<open>What the worker does in a pass, in order: the classification it obtained, the
  methods it awaited, the seconds it slept.\<close>

datatype action = Classified ScreenType | Call helper | Sleep nat

text \<open>
  What the surroundings give one pass of the loop: whether \<open>_stop_worker_event\<close> is set at
  the loop test, what \<open>detect_screentype()\<close> returns, what each awaited method does, and
  whether the device setting \<open>CLEAR_GAME_DATA\<close> is set.
\<close>

record iteration =
  stop_set :: bool
  detected :: "py_error + ScreenType"
  outcome :: "helper \<Rightarrow> py_error + bool"
  clear_game_data :: bool

text \<open>Why the loop was left: each \<open>break\<close> of the source in order, and the loop test.\<close>

datatype exit_reason =
    FoundPogoOrQuest | ScreenFrozen | DetectionDisabled | GpsReboot | SnRestart
  | NotRespondingReboot | LoginErrorEscalation | StopSignal

text \<open>The state of a pass: an exception, a \<open>break\<close>, or going on with the statements
  that follow; with the worker and what was done so far.\<close>

datatype step =
    Raise py_error
  | Break WorkerBase "action list" exit_reason
  | Continue WorkerBase "action list"

definition and_then :: "step \<Rightarrow> (WorkerBase \<Rightarrow> step) \<Rightarrow> step" where
  "and_then s f =
     (case s of
        Raise e \<Rightarrow> Raise e
      | Break w acts reason \<Rightarrow> Break w acts reason
      | Continue w acts \<Rightarrow>
          (case f w of
             Raise e \<Rightarrow> Raise e
           | Break w' acts' reason \<Rightarrow> Break w' (acts @ acts') reason
           | Continue w' acts' \<Rightarrow> Continue w' (acts @ acts')))"

definition await :: "iteration \<Rightarrow> helper \<Rightarrow> WorkerBase \<Rightarrow> step" where
  "await it h w = (case outcome it h of Inl e \<Rightarrow> Raise e | Inr _ \<Rightarrow> Continue w [Call h])"

text \<open>
  \<^verbatim>\<open>
  if screen_type in [ScreenType.POGO, ScreenType.QUEST]:
      self._last_screen_type = screen_type
      self._loginerrorcounter = 0
      break
  \<close>
\<close>

definition found_check :: "ScreenType \<Rightarrow> WorkerBase \<Rightarrow> step" where
  "found_check screen_type w =
     (if screen_type = POGO \<or> screen_type = QUEST
      then Break (w\<lparr>last_screen_type := screen_type, loginerrorcounter := 0\<rparr>) [] FoundPogoOrQuest
      else Continue w [])"

text \<open>
  \<^verbatim>\<open>
  if screen_type != ScreenType.ERROR and self._last_screen_type == screen_type:
      self._same_screen_count += 1
      if self._same_screen_count > 3:
          if self._same_screen_count > 4 or not await self._restart_pogo():
              await self._reboot()
          break
  elif self._last_screen_type != screen_type:
      self._same_screen_count = 0
  \<close>
\<close>

definition same_screen_check :: "iteration \<Rightarrow> ScreenType \<Rightarrow> WorkerBase \<Rightarrow> step" where
  "same_screen_check it screen_type w =
     (if screen_type \<noteq> ERROR \<and> last_screen_type w = screen_type then
        let w1 = w\<lparr>same_screen_count := same_screen_count w + 1\<rparr> in
        if same_screen_count w1 > 3 then
          and_then
            (if same_screen_count w1 > 4 then await it Reboot w1
             else (case outcome it RestartPogo of
                     Inl e \<Rightarrow> Raise e
                   | Inr ok \<Rightarrow>
                       if \<not> ok then and_then (Continue w1 [Call RestartPogo]) (await it Reboot)
                       else Continue w1 [Call RestartPogo]))
            (\<lambda>w2. Break w2 [] ScreenFrozen)
        else Continue w1 []
      else if last_screen_type w \<noteq> screen_type then Continue (w\<lparr>same_screen_count := 0\<rparr>) []
      else Continue w [])"

text \<open>
  \<^verbatim>\<open>
  if screen_type == ScreenType.UNDEFINED:
      logger.error("Undefined screentype!")
  elif screen_type == ScreenType.BLACK:
      await asyncio.sleep(20)
  elif screen_type == ScreenType.CLOSE:
      await self._start_pogo()
      self._loginerrorcounter += 1
  elif screen_type == ScreenType.GAMEDATA:
      self._loginerrorcounter += 1
      if self._loginerrorcounter < 2:
          await self._restart_pogo_safe()
  elif screen_type == ScreenType.DISABLED:
      break
  elif screen_type == ScreenType.UPDATE:
      await asyncio.sleep(300)
  elif screen_type in [ScreenType.ERROR, ScreenType.FAILURE]:
      self._loginerrorcounter += 1
  elif screen_type == ScreenType.NOGGL:
      self._loginerrorcounter += 1
  elif screen_type == ScreenType.GPS:
      await self._reboot()
      break
  elif screen_type == ScreenType.SN:
      await self._restart_pogo_safe()
      break
  elif screen_type == ScreenType.NOTRESPONDING:
      await self._reboot()
      break
  \<close>
\<close>

definition bump_loginerror :: "WorkerBase \<Rightarrow> WorkerBase" where
  "bump_loginerror w = w\<lparr>loginerrorcounter := loginerrorcounter w + 1\<rparr>"

fun handle_screen :: "iteration \<Rightarrow> ScreenType \<Rightarrow> WorkerBase \<Rightarrow> step" where
  "handle_screen it UNDEFINED w = Continue w []"
| "handle_screen it BLACK w = Continue w [Sleep 20]"
| "handle_screen it CLOSE w =
     and_then (await it StartPogo w) (\<lambda>w1. Continue (bump_loginerror w1) [])"
| "handle_screen it GAMEDATA w =
     (let w1 = bump_loginerror w
      in if loginerrorcounter w1 < 2 then await it RestartPogoSafe w1 else Continue w1 [])"
| "handle_screen it DISABLED w = Break w [] DetectionDisabled"
| "handle_screen it UPDATE w = Continue w [Sleep 300]"
| "handle_screen it ERROR w = Continue (bump_loginerror w) []"
| "handle_screen it FAILURE w = Continue (bump_loginerror w) []"
| "handle_screen it NOGGL w = Continue (bump_loginerror w) []"
| "handle_screen it GPS w = and_then (await it Reboot w) (\<lambda>w1. Break w1 [] GpsReboot)"
| "handle_screen it SN w = and_then (await it RestartPogoSafe w) (\<lambda>w1. Break w1 [] SnRestart)"
| "handle_screen it NOTRESPONDING w =
     and_then (await it Reboot w) (\<lambda>w1. Break w1 [] NotRespondingReboot)"
| "handle_screen it POGO w = Continue w []"
| "handle_screen it QUEST w = Continue w []"
| "handle_screen it (OtherScreen n) w = Continue w []"

text \<open>
  \<^verbatim>\<open>
  if self._loginerrorcounter > 1:
      await self._stop_pogo()
      await self._communicator.clear_app_cache("com.nianticlabs.pokemongo")
      if await self.get_devicesettings_value(MappingManagerDevicemappingKey.CLEAR_GAME_DATA, False):
          await self._communicator.reset_app_data("com.nianticlabs.pokemongo")
      self._loginerrorcounter = 0
      await self._reboot()
      break
  \<close>
\<close>

definition escalate :: "iteration \<Rightarrow> WorkerBase \<Rightarrow> step" where
  "escalate it w =
     (if loginerrorcounter w > 1 then
        and_then (await it StopPogo w) (\<lambda>w1.
        and_then (await it ClearAppCache w1) (\<lambda>w2.
        and_then (if clear_game_data it then await it ResetAppData w2 else Continue w2 []) (\<lambda>w3.
        and_then (await it Reboot (w3\<lparr>loginerrorcounter := 0\<rparr>)) (\<lambda>w4.
        Break w4 [] LoginErrorEscalation))))
      else Continue w [])"

text \<open>One pass of the loop body after \<open>detect_screentype()\<close> has returned \<open>screen_type\<close>; a
  pass that reaches the end of the body stores \<open>self._last_screen_type = screen_type\<close>.\<close>

definition loop_body :: "iteration \<Rightarrow> ScreenType \<Rightarrow> WorkerBase \<Rightarrow> step" where
  "loop_body it screen_type w =
     and_then (found_check screen_type w) (\<lambda>w1.
     and_then (same_screen_check it screen_type w1) (\<lambda>w2.
     and_then (handle_screen it screen_type w2) (\<lambda>w3.
     and_then (escalate it w3) (\<lambda>w4.
     Continue (w4\<lparr>last_screen_type := screen_type\<rparr>) []))))"

text \<open>
  \<^verbatim>\<open>
  async def _ensure_pogo_topmost(self):
      screen_type: ScreenType = ScreenType.UNDEFINED
      while not self._stop_worker_event.is_set():
          screen_type: ScreenType = await self._word_to_screen_matching.detect_screentype()
          ... (the body above) ...
          self._last_screen_type = screen_type
      if screen_type in [ScreenType.POGO, ScreenType.QUEST]:
          return True
      else:
          return False
  \<close>
  The loop runs as long as its surroundings let it: the list holds what they give each
  pass. \<open>None\<close> is a loop that has not ended when the list is used up. A loop that ends
  gives the worker, the local \<open>screen_type\<close>, what was done, and why it ended.
\<close>

fun ensure_loop ::
  "WorkerBase \<Rightarrow> ScreenType \<Rightarrow> iteration list \<Rightarrow>
   (py_error + WorkerBase \<times> ScreenType \<times> action list \<times> exit_reason) option" where
  "ensure_loop w screen_type [] = None"
| "ensure_loop w screen_type (it # its) =
     (if stop_set it then Some (Inr (w, screen_type, [], StopSignal))
      else
        (case detected it of
           Inl e \<Rightarrow> Some (Inl e)
         | Inr screen_type' \<Rightarrow>
             (case loop_body it screen_type' w of
                Raise e \<Rightarrow> Some (Inl e)
              | Break w' acts reason \<Rightarrow>
                  Some (Inr (w', screen_type', Classified screen_type' # acts, reason))
              | Continue w' acts \<Rightarrow>
                  (case ensure_loop w' screen_type' its of
                     None \<Rightarrow> None
                   | Some (Inl e) \<Rightarrow> Some (Inl e)
                   | Some (Inr (w'', final, acts', reason)) \<Rightarrow>
                       Some (Inr (w'', final, Classified screen_type' # acts @ acts', reason))))))"

definition ensure_pogo_topmost ::
  "WorkerBase \<Rightarrow> iteration list \<Rightarrow>
   (py_error + bool \<times> WorkerBase \<times> action list \<times> exit_reason) option" where
  "ensure_pogo_topmost w its =
     (case ensure_loop w UNDEFINED its of
        None \<Rightarrow> None
      | Some (Inl e) \<Rightarrow> Some (Inl e)
      | Some (Inr (w', screen_type, acts, reason)) \<Rightarrow>
          Some (Inr (if screen_type = POGO \<or> screen_type = QUEST then True else False,
                     w', acts, reason)))"

text \<open>The last classification a run obtained, read off what it did.\<close>

fun last_classified :: "action list \<Rightarrow> ScreenType option" where
  "last_classified [] = None"
| "last_classified (a # as) =
     (case last_classified as of
        Some s \<Rightarrow> Some s
      | None \<Rightarrow> (case a of Classified s \<Rightarrow> Some s | _ \<Rightarrow> None))"




fun quiet :: "step \<Rightarrow> bool" where
  "quiet (Raise e) = True"
| "quiet (Break w acts reason) = (last_classified acts = None \<and> reason \<noteq> FoundPogoOrQuest)"
| "quiet (Continue w acts) = (last_classified acts = None)"

text \<open>A pass in which the classifier answers \<open>s\<close>, nothing raises, \<open>_restart_pogo\<close> succeeds
  and \<open>CLEAR_GAME_DATA\<close> is off.\<close>

definition pass_of :: "ScreenType \<Rightarrow> iteration" where
  "pass_of s = \<lparr>stop_set = False, detected = Inr s, outcome = (\<lambda>h. Inr True),
                clear_game_data = False\<rparr>"

section \<open>Interaction protocol: \<open>WorkerQuests\<close>\<close>

text \<open>
  \<^verbatim>\<open>src/mapadroid/worker/WorkerQuests.py\<close>.

  The enumerations of the module and of the modules it imports. \<open>ProtoIdentifier\<close> and
  \<open>LatestReceivedType\<close> are not part of these sources: these are the members the code
  names (\<open>OtherProto\<close> stands for the other protos). A prefix keeps apart the members
  that carry the same name in two enumerations.
\<close>

datatype PositionStopType =
    GMO_NOT_AVAILABLE | GMO_EMPTY | GYM | VISITED_STOP_IN_LEVEL_MODE_TO_IGNORE
  | STOP_DISABLED | STOP_CLOSED | STOP_COOLDOWN | NO_FORT | SPINNABLE_STOP

definition type_contains_stop_at_all :: "PositionStopType \<Rightarrow> bool" where
  "type_contains_stop_at_all position_stop_type =
     (position_stop_type \<in> set [SPINNABLE_STOP, VISITED_STOP_IN_LEVEL_MODE_TO_IGNORE,
                                 STOP_CLOSED, STOP_COOLDOWN, STOP_DISABLED])"

datatype FortSearchResultTypes =
    Search_UNDEFINED | Search_QUEST | Search_TIME | Search_COOLDOWN | Search_INVENTORY
  | Search_LIMIT | Search_UNAVAILABLE | Search_OUT_OF_RANGE | Search_FULL

datatype ProtoIdentifier =
    Proto_GMO | Proto_ENCOUNTER | Proto_FORT_SEARCH | Proto_FORT_DETAILS | Proto_INVENTORY
  | Proto_GYM_INFO | OtherProto nat

datatype LatestReceivedType =
    Received_UNDEFINED | Received_GYM | Received_MON | Received_STOP | Received_GMO
  | Received_FORT_SEARCH_RESULT | Received_CLEAR

definition S2_GMO_CELL_LEVEL :: nat where
  "S2_GMO_CELL_LEVEL = 15"

definition RADIUS_FOR_CELLS_CONSIDERED_FOR_STOP_SCAN :: real where
  "RADIUS_FOR_CELLS_CONSIDERED_FOR_STOP_SCAN = 35"

definition DISTANCE_TO_STOP_TO_CONSIDER_ON_TOP :: real where
  "DISTANCE_TO_STOP_TO_CONSIDER_ON_TOP = 6 / 100000"

text \<open>
  A fort of a map-objects cell is a dictionary; the code reads these keys with
  \<open>fort.get(key, default)\<close>, so a field is \<open>None\<close> when the key is absent.
\<close>

record fort =
  fort_id :: "string option"
  fort_latitude :: "real option"
  fort_longitude :: "real option"
  fort_type :: "int option"
  fort_visited :: "bool option"
  fort_enabled :: "bool option"
  fort_closed :: "bool option"
  cooldown_complete_ms :: "int option"

text \<open>A cell of the map-objects payload: \<open>cell["id"]\<close> (a \<open>KeyError\<close> when absent) and
  \<open>cell.get("forts", None)\<close>.\<close>

record gmo_cell =
  cell_id :: "int option"
  forts :: "fort list option"

text \<open>
  The payload of a telemetry entry, as far as \<open>_check_for_data_content\<close> and the
  spinnability check read it: \<open>cells\<close> (map objects), \<open>type\<close> (fort details), \<open>result\<close>,
  the length of \<open>items_awarded\<close> and \<open>challenge_quest.quest.quest_type\<close> (fort search), and
  \<open>inventory_delta\<close> with the length of its \<open>inventory_items\<close> (inventory).
\<close>

record proto_payload =
  payload_cells :: "gmo_cell list option"
  payload_type :: "int option"
  payload_result :: "int option"
  items_awarded :: "nat option"
  quest_type :: "int option"
  inventory_delta :: "nat option option"

text \<open>The \<open>values\<close> of a telemetry entry hold the payload; an entry of \<open>latest\<close> holds a
  \<open>timestamp\<close> and the \<open>values\<close>. An entry with neither key is the empty dictionary.\<close>

record proto_data =
  payload :: "proto_payload option"

record latest_entry =
  entry_timestamp :: "real option"
  entry_values :: "proto_data option"

text \<open>What \<open>_check_for_data_content\<close> returns beside the type: nothing, the payload, the
  values, or a fort-search result.\<close>

datatype received_data =
    DataPayload proto_payload
  | DataValues proto_data
  | DataResult FortSearchResultTypes

text \<open>The fields of the worker that the modelled methods read or write.\<close>

record WorkerQuests =
  current_location :: Location
  level_mode :: bool
  ignore_spinned_stops :: bool
  spinnable_data_failcount :: int
  stop_process_time :: int
  waittime_without_delays :: int
  latest_quest :: int
  delay_add :: int

text \<open>
  What the worker asks of the database, the route manager and the device, in order:
  \<open>PokestopHelper.delete\<close>, \<open>TrsVisitedHelper.mark_visited\<close>,
  \<open>PokestopHelper.update_location\<close>, \<open>routemanager_add_coords_to_be_removed\<close>,
  \<open>_restart_pogo\<close>, \<open>_click_pokestop_at_current_location\<close>, setting
  \<open>LAST_ACTION_TIME\<close>, \<open>_wait_for_data\<close> (timestamp, proto, timeout),
  \<open>asyncio.sleep\<close>, the click on the close button, \<open>_turn_map\<close>.
\<close>

datatype quest_action =
    DeleteStop Location
  | MarkVisited Location
  | UpdateLocation string Location
  | AddCoordsToBeRemoved real real
  | RestartGame
  | ClickPokestop
  | SetLastActionTime
  | WaitForData real ProtoIdentifier real
  | SleepFor real
  | ClickCloseButton
  | TurnMap

subsection \<open>\<open>_directly_surrounding_gmo_cells_containing_stops_around_current_position\<close>\<close>

text \<open>
  \<^verbatim>\<open>
  cells_with_forts = []
  if not gmo_cells:
      return cells_with_forts
  s2cells_valid_around_location = S2Helper.get_s2cells_from_circle(
      self.current_location.lat, self.current_location.lng,
      RADIUS_FOR_CELLS_CONSIDERED_FOR_STOP_SCAN, S2_GMO_CELL_LEVEL)
  s2cell_ids_valid = [s2cell.id() for s2cell in s2cells_valid_around_location]
  for cell in gmo_cells:
      if cell["id"] not in s2cell_ids_valid:
          continue
      forts: list = cell.get("forts", None)
      if forts:
          cells_with_forts.append(cell)
  return cells_with_forts
  \<close>
  \<open>S2Helper\<close> is not part of these sources: the identifiers of the cells it finds around
  the current location are the parameter \<open>s2cell_ids_valid\<close>.
\<close>

fun surrounding_cells :: "int list \<Rightarrow> gmo_cell list \<Rightarrow> py_error + gmo_cell list" where
  "surrounding_cells s2cell_ids_valid [] = Inr []"
| "surrounding_cells s2cell_ids_valid (cell # gmo_cells) =
     (case cell_id cell of
        None \<Rightarrow> Inl KeyError
      | Some i \<Rightarrow>
          (case surrounding_cells s2cell_ids_valid gmo_cells of
             Inl e \<Rightarrow> Inl e
           | Inr cells_with_forts \<Rightarrow>
               if i \<notin> set s2cell_ids_valid then Inr cells_with_forts
               else (case forts cell of
                       None \<Rightarrow> Inr cells_with_forts
                     | Some fs \<Rightarrow>
                         if fs = [] then Inr cells_with_forts
                         else Inr (cell # cells_with_forts))))"

definition directly_surrounding_gmo_cells ::
  "int list \<Rightarrow> gmo_cell list option \<Rightarrow> py_error + gmo_cell list" where
  "directly_surrounding_gmo_cells s2cell_ids_valid gmo_cells =
     (case gmo_cells of
        None \<Rightarrow> Inr []
      | Some cs \<Rightarrow> surrounding_cells s2cell_ids_valid cs)"

subsection \<open>\<open>_check_for_data_content\<close>\<close>

text \<open>\<open>k in latest and latest[k].get('timestamp', 0) >= timestamp\<close>.\<close>

definition timestamp_of :: "latest_entry \<Rightarrow> real" where
  "timestamp_of e = (case entry_timestamp e of None \<Rightarrow> 0 | Some t \<Rightarrow> t)"

definition newer_entry :: "(ProtoIdentifier \<rightharpoonup> latest_entry) \<Rightarrow> ProtoIdentifier \<Rightarrow> real \<Rightarrow> bool" where
  "newer_entry latest k timestamp =
     (case latest k of None \<Rightarrow> False | Some e \<Rightarrow> timestamp_of e \<ge> timestamp)"

text \<open>
  \<^verbatim>\<open>
  potential_replacements = [
      self._latest_quest,
      await self.get_devicesettings_value(MappingManagerDevicemappingKey.LAST_CLEANUP_TIME, 0),
      await self.get_devicesettings_value(MappingManagerDevicemappingKey.LAST_QUESTCLEAR_TIME, 0)
  ]
  replacement = max(x for x in potential_replacements if isinstance(x, int) or isinstance(x, float))
  \<close>
  A device setting is \<open>None\<close> here when its value is not a number; \<open>_latest_quest\<close> is an
  integer, so the maximum is taken over at least that.
\<close>

definition replacement_timestamp :: "WorkerQuests \<Rightarrow> real option \<Rightarrow> real option \<Rightarrow> real" where
  "replacement_timestamp w last_cleanup_time last_questclear_time =
     foldr max
       ((case last_cleanup_time of None \<Rightarrow> [] | Some x \<Rightarrow> [x]) @
        (case last_questclear_time of None \<Rightarrow> [] | Some x \<Rightarrow> [x]))
       (real_of_int (latest_quest w))"

text \<open>
  \<^verbatim>\<open>
  quest_type: int = latest_proto.get('challenge_quest', {}).get('quest', {}).get('quest_type', False)
  result: int = latest_proto.get("result", 0)
  if result == 1 and len(latest_proto.get('items_awarded', [])) == 0:
      return LatestReceivedType.FORT_SEARCH_RESULT, FortSearchResultTypes.TIME
  elif result == 1 and quest_type == 0:
      return LatestReceivedType.FORT_SEARCH_RESULT, FortSearchResultTypes.FULL
  elif result == 1 and len(latest_proto.get('items_awarded', [])) > 0:
      return LatestReceivedType.FORT_SEARCH_RESULT, FortSearchResultTypes.QUEST
  elif result == 2: ... OUT_OF_RANGE
  elif result == 3: ... COOLDOWN
  elif result == 4: ... INVENTORY
  elif result == 5: ... LIMIT
  \<close>
  An absent \<open>quest_type\<close> is \<open>False\<close>, which equals 0.
\<close>

definition fort_search_content ::
  "proto_payload \<Rightarrow> LatestReceivedType \<times> received_data option" where
  "fort_search_content latest_proto =
     (let qt = (case quest_type latest_proto of None \<Rightarrow> 0 | Some q \<Rightarrow> q);
          result = (case payload_result latest_proto of None \<Rightarrow> 0 | Some r \<Rightarrow> r);
          n_items = (case items_awarded latest_proto of None \<Rightarrow> 0 | Some n \<Rightarrow> n)
      in if result = 1 \<and> n_items = 0 then (Received_FORT_SEARCH_RESULT, Some (DataResult Search_TIME))
         else if result = 1 \<and> qt = 0 then (Received_FORT_SEARCH_RESULT, Some (DataResult Search_FULL))
         else if result = 1 \<and> n_items > 0 then (Received_FORT_SEARCH_RESULT, Some (DataResult Search_QUEST))
         else if result = 2 then (Received_FORT_SEARCH_RESULT, Some (DataResult Search_OUT_OF_RANGE))
         else if result = 3 then (Received_FORT_SEARCH_RESULT, Some (DataResult Search_COOLDOWN))
         else if result = 4 then (Received_FORT_SEARCH_RESULT, Some (DataResult Search_INVENTORY))
         else if result = 5 then (Received_FORT_SEARCH_RESULT, Some (DataResult Search_LIMIT))
         else (Received_UNDEFINED, None))"

text \<open>
  \<^verbatim>\<open>
  async def _check_for_data_content(self, latest, proto_to_wait_for, timestamp):
      type_of_data_found = LatestReceivedType.UNDEFINED
      data_found = None
      if ProtoIdentifier.GYM_INFO.value in latest \
              and latest[ProtoIdentifier.GYM_INFO.value].get('timestamp', 0) >= timestamp:
          type_of_data_found = LatestReceivedType.GYM
          return type_of_data_found, data_found
      elif ProtoIdentifier.ENCOUNTER.value in latest \
              and latest[ProtoIdentifier.ENCOUNTER.value].get('timestamp', 0) >= timestamp:
          type_of_data_found = LatestReceivedType.MON
          return type_of_data_found, data_found
      elif proto_to_wait_for.value not in latest:
          return type_of_data_found, data_found
      # when waiting for stop or spin data, it is enough to make sure
      # our data is newer than the latest of last quest received, last
      # successful bag clear or last successful quest clear. ...
      if proto_to_wait_for in [ProtoIdentifier.FORT_SEARCH, ProtoIdentifier.FORT_DETAILS]:
          ...
          timestamp = replacement
      latest_proto_entry = latest.get(proto_to_wait_for.value, None)
      if not latest_proto_entry:
          return type_of_data_found, data_found
      timestamp_of_proto = latest_proto_entry.get("timestamp", 0)
      if timestamp_of_proto < timestamp:
          return type_of_data_found, data_found
      latest_proto_data = latest_proto_entry.get("values", None)
      if latest_proto_data is None:
          return type_of_data_found, data_found
      latest_proto = latest_proto_data.get("payload", None)
      if latest_proto is None:
          logger.debug(...)
      elif proto_to_wait_for == ProtoIdentifier.FORT_SEARCH:
          ... (above)
      elif proto_to_wait_for == ProtoIdentifier.FORT_DETAILS:
          fort_type: int = latest_proto.get("type", 0)
          data_found = latest_proto
          type_of_data_found = LatestReceivedType.GYM if fort_type == 0 else LatestReceivedType.STOP
      elif proto_to_wait_for == ProtoIdentifier.GMO \
              and self._directly_surrounding_gmo_cells_containing_stops_around_current_position(
          latest_proto.get("cells")):
          data_found = latest_proto_data
          type_of_data_found = LatestReceivedType.GMO
      elif proto_to_wait_for == ProtoIdentifier.INVENTORY and 'inventory_delta' in latest_proto and \
              len(latest_proto['inventory_delta']['inventory_items']) > 0:
          type_of_data_found = LatestReceivedType.CLEAR
          data_found = latest_proto
      return type_of_data_found, data_found
  \<close>
  \<open>latest\<close> is keyed by the protos' values. The two device settings and the valid cell
  identifiers are parameters.
\<close>

definition payload_content ::
  "int list \<Rightarrow> ProtoIdentifier \<Rightarrow> proto_data \<Rightarrow> proto_payload \<Rightarrow>
   py_error + LatestReceivedType \<times> received_data option" where
  "payload_content s2cell_ids_valid proto_to_wait_for latest_proto_data latest_proto =
     (if proto_to_wait_for = Proto_FORT_SEARCH then Inr (fort_search_content latest_proto)
      else if proto_to_wait_for = Proto_FORT_DETAILS then
        (let ft = (case payload_type latest_proto of None \<Rightarrow> 0 | Some t \<Rightarrow> t)
         in Inr (if ft = 0 then Received_GYM else Received_STOP, Some (DataPayload latest_proto)))
      else if proto_to_wait_for = Proto_GMO then
        (case directly_surrounding_gmo_cells s2cell_ids_valid (payload_cells latest_proto) of
           Inl e \<Rightarrow> Inl e
         | Inr cs \<Rightarrow>
             if cs \<noteq> [] then Inr (Received_GMO, Some (DataValues latest_proto_data))
             else Inr (Received_UNDEFINED, None))
      else if proto_to_wait_for = Proto_INVENTORY then
        (case inventory_delta latest_proto of
           None \<Rightarrow> Inr (Received_UNDEFINED, None)
         | Some None \<Rightarrow> Inl KeyError
         | Some (Some n) \<Rightarrow>
             if n > 0 then Inr (Received_CLEAR, Some (DataPayload latest_proto))
             else Inr (Received_UNDEFINED, None))
      else Inr (Received_UNDEFINED, None))"

definition check_for_data_content ::
  "WorkerQuests \<Rightarrow> real option \<Rightarrow> real option \<Rightarrow> int list \<Rightarrow>
   (ProtoIdentifier \<rightharpoonup> latest_entry) \<Rightarrow> ProtoIdentifier \<Rightarrow> real \<Rightarrow>
   py_error + LatestReceivedType \<times> received_data option" where
  "check_for_data_content w last_cleanup_time last_questclear_time s2cell_ids_valid
     latest proto_to_wait_for timestamp =
     (if newer_entry latest Proto_GYM_INFO timestamp then Inr (Received_GYM, None)
      else if newer_entry latest Proto_ENCOUNTER timestamp then Inr (Received_MON, None)
      else
        (case latest proto_to_wait_for of
           None \<Rightarrow> Inr (Received_UNDEFINED, None)
         | Some latest_proto_entry \<Rightarrow>
             let timestamp' =
                   (if proto_to_wait_for = Proto_FORT_SEARCH \<or> proto_to_wait_for = Proto_FORT_DETAILS
                    then replacement_timestamp w last_cleanup_time last_questclear_time
                    else timestamp)
             in if entry_timestamp latest_proto_entry = None \<and> entry_values latest_proto_entry = None
                then Inr (Received_UNDEFINED, None)
                else if timestamp_of latest_proto_entry < timestamp'
                then Inr (Received_UNDEFINED, None)
                else
                  (case entry_values latest_proto_entry of
                     None \<Rightarrow> Inr (Received_UNDEFINED, None)
                   | Some latest_proto_data \<Rightarrow>
                       (case payload latest_proto_data of
                          None \<Rightarrow> Inr (Received_UNDEFINED, None)
                        | Some latest_proto \<Rightarrow>
                            payload_content s2cell_ids_valid proto_to_wait_for
                              latest_proto_data latest_proto))))"

subsection \<open>\<open>_spinnable_data_failure\<close>\<close>

text \<open>
  \<^verbatim>\<open>
  async def _spinnable_data_failure(self):
      if self._spinnable_data_failcount > 9:
          self._spinnable_data_failcount = 0
          logger.warning("Worker failed spinning stop with GMO/data issues 10+ times - restart pogo")
          if not await self._restart_pogo(mitm_mapper=self._mitm_mapper):
              raise InternalStopWorkerException
      else:
          self._spinnable_data_failcount += 1
  \<close>
  \<open>restart_pogo\<close> is what \<open>_restart_pogo\<close> does when awaited: raise, or return a boolean.
\<close>

definition spinnable_data_failure ::
  "(py_error + bool) \<Rightarrow> WorkerQuests \<Rightarrow> py_error + WorkerQuests \<times> quest_action list" where
  "spinnable_data_failure restart_pogo w =
     (if spinnable_data_failcount w > 9 then
        (case restart_pogo of
           Inl e \<Rightarrow> Inl e
         | Inr ok \<Rightarrow>
             if \<not> ok then Inl InternalStopWorkerException
             else Inr (w\<lparr>spinnable_data_failcount := 0\<rparr>, [RestartGame]))
      else Inr (w\<lparr>spinnable_data_failcount := spinnable_data_failcount w + 1\<rparr>, []))"

subsection \<open>\<open>_check_if_stop_was_nearby_and_update_location\<close>\<close>

text \<open>\<open>Pokestop\<close> (of \<open>mapadroid.db.model\<close>, not part of these sources) is a row of the
  database: the columns the code reads. \<open>last_updated\<close> is a time, here in seconds.\<close>

record Pokestop =
  pokestop_id :: string
  latitude :: real
  longitude :: real
  last_updated :: "real option"

text \<open>
  \<^verbatim>\<open>
  for cell in gmo_cells:
      forts: list = cell.get("forts", None)
      if not forts:
          continue
      for fort in forts:
          latitude: float = fort.get("latitude", None)
          longitude: float = fort.get("longitude", None)
          fort_id: str = fort.get("id", None)
          if not latitude or not longitude or not fort_id:
              continue
          stop: Optional[Pokestop] = stops.get(fort_id)
          if stop is None:
              continue
          else:
              stops.pop(fort_id)
          if stop.latitude == latitude and stop.longitude == longitude:
              continue
          else:
              await PokestopHelper.update_location(session, fort_id, Location(latitude, longitude))
  \<close>
  \<open>stops\<close> is the dictionary \<open>PokestopHelper.get_nearby\<close> returned, as the list of its
  items in the dictionary's order.
\<close>

definition reconcile_fort ::
  "(string \<times> Pokestop) list \<times> quest_action list \<Rightarrow> fort \<Rightarrow>
   (string \<times> Pokestop) list \<times> quest_action list" where
  "reconcile_fort st fort =
     (case st of (stops, acts) \<Rightarrow>
       (case (fort_latitude fort, fort_longitude fort, fort_id fort) of
          (Some lat', Some lng', Some fid) \<Rightarrow>
            if lat' = 0 \<or> lng' = 0 \<or> fid = [] then (stops, acts)
            else
              (case map_of stops fid of
                 None \<Rightarrow> (stops, acts)
               | Some stop \<Rightarrow>
                   let stops' = filter (\<lambda>kv. fst kv \<noteq> fid) stops
                   in if latitude stop = lat' \<and> longitude stop = lng' then (stops', acts)
                      else (stops', acts @ [UpdateLocation fid \<lparr>lat = lat', lng = lng'\<rparr>]))
        | _ \<Rightarrow> (stops, acts)))"

definition reconcile_cell ::
  "(string \<times> Pokestop) list \<times> quest_action list \<Rightarrow> gmo_cell \<Rightarrow>
   (string \<times> Pokestop) list \<times> quest_action list" where
  "reconcile_cell st cell =
     (case forts cell of None \<Rightarrow> st | Some fs \<Rightarrow> foldl reconcile_fort st fs)"

text \<open>
  \<^verbatim>\<open>
  timedelta_to_consider_deletion = timedelta(days=3)
  for fort_id, stop in stops.values():
      stop_location: Location = Location(float(stop.latitude), float(stop.longitude))
      if stop.last_updated and stop.last_updated > datetime.now() - timedelta_to_consider_deletion:
          continue
      distance_to_location = get_distance_of_two_points_in_meters(
          float(stop_location.lat), float(stop_location.lng),
          float(self.current_location.lat), float(self.current_location.lng))
      if distance_to_location < 100:
          await PokestopHelper.delete(session, stop_location)
          await self._mapping_manager.routemanager_add_coords_to_be_removed(
              self._routemanager_id, stop_location.lat, stop_location.lng)
  \<close>
  The loop runs over \<open>stops.values()\<close>, the rows themselves, and unpacks each into
  \<open>fort_id, stop\<close>. A \<open>Pokestop\<close> row is not iterable: the unpacking raises \<open>TypeError\<close>.
  \<open>get_distance_of_two_points_in_meters\<close> is not part of these sources and is the parameter
  \<open>distance\<close>; \<open>now\<close> is \<open>datetime.now()\<close> in seconds, three days are 259200 seconds.
\<close>

definition unpack_pair :: "Pokestop \<Rightarrow> py_error + string \<times> Pokestop" where
  "unpack_pair row = Inl TypeError"

fun delete_absent ::
  "(Location \<Rightarrow> Location \<Rightarrow> real) \<Rightarrow> real \<Rightarrow> Location \<Rightarrow> Pokestop list \<Rightarrow>
   py_error + quest_action list" where
  "delete_absent distance now cur [] = Inr []"
| "delete_absent distance now cur (row # rows) =
     (case unpack_pair row of
        Inl e \<Rightarrow> Inl e
      | Inr (fid, stop) \<Rightarrow>
          let stop_location = \<lparr>lat = latitude stop, lng = longitude stop\<rparr>
          in if (case last_updated stop of None \<Rightarrow> False | Some t \<Rightarrow> t > now - 259200)
             then delete_absent distance now cur rows
             else if distance stop_location cur < 100
             then (case delete_absent distance now cur rows of
                     Inl e \<Rightarrow> Inl e
                   | Inr acts \<Rightarrow>
                       Inr (DeleteStop stop_location #
                            AddCoordsToBeRemoved (lat stop_location) (lng stop_location) # acts))
             else delete_absent distance now cur rows)"

definition check_if_stop_was_nearby_and_update_location ::
  "(Location \<Rightarrow> Location \<Rightarrow> real) \<Rightarrow> real \<Rightarrow> (string \<times> Pokestop) list \<Rightarrow> WorkerQuests \<Rightarrow>
   gmo_cell list \<Rightarrow> py_error + quest_action list" where
  "check_if_stop_was_nearby_and_update_location distance now stops w gmo_cells =
     (case foldl reconcile_cell (stops, []) gmo_cells of
        (remaining, updates) \<Rightarrow>
          (case delete_absent distance now (current_location w) (map snd remaining) of
             Inl e \<Rightarrow> Inl e
           | Inr deletions \<Rightarrow> Inr (updates @ deletions)))"

subsection \<open>\<open>_current_position_has_spinnable_stop\<close>\<close>

text \<open>
  \<^verbatim>\<open>
  fort_type: int = fort.get("type", 0)
  if fort_type == 0:
      await PokestopHelper.delete(session, Location(latitude, longitude))
      self._spinnable_data_failcount = 0
      return PositionStopType.GYM
  visited: bool = fort.get("visited", False)
  if self._level_mode and self._ignore_spinned_stops and visited:
      await TrsVisitedHelper.mark_visited(session, self.origin, Location(latitude, longitude))
      self._spinnable_data_failcount = 0
      return PositionStopType.VISITED_STOP_IN_LEVEL_MODE_TO_IGNORE
  enabled: bool = fort.get("enabled", True)
  if not enabled:
      return PositionStopType.STOP_DISABLED
  closed: bool = fort.get("closed", False)
  if closed:
      return PositionStopType.STOP_CLOSED
  cooldown: int = fort.get("cooldown_complete_ms", 0)
  if not cooldown == 0:
      return PositionStopType.STOP_COOLDOWN
  self._spinnable_data_failcount = 0
  return PositionStopType.SPINNABLE_STOP
  \<close>
\<close>

definition classify_fort ::
  "WorkerQuests \<Rightarrow> fort \<Rightarrow> real \<Rightarrow> real \<Rightarrow> PositionStopType \<times> WorkerQuests \<times> quest_action list" where
  "classify_fort w fort lat' lng' =
     (if (case fort_type fort of None \<Rightarrow> 0 | Some t \<Rightarrow> t) = 0
      then (GYM, w\<lparr>spinnable_data_failcount := 0\<rparr>, [DeleteStop \<lparr>lat = lat', lng = lng'\<rparr>])
      else if level_mode w \<and> ignore_spinned_stops w
              \<and> (case fort_visited fort of None \<Rightarrow> False | Some v \<Rightarrow> v)
      then (VISITED_STOP_IN_LEVEL_MODE_TO_IGNORE, w\<lparr>spinnable_data_failcount := 0\<rparr>,
            [MarkVisited \<lparr>lat = lat', lng = lng'\<rparr>])
      else if \<not> (case fort_enabled fort of None \<Rightarrow> True | Some v \<Rightarrow> v)
      then (STOP_DISABLED, w, [])
      else if (case fort_closed fort of None \<Rightarrow> False | Some v \<Rightarrow> v)
      then (STOP_CLOSED, w, [])
      else if \<not> (case cooldown_complete_ms fort of None \<Rightarrow> 0 | Some c \<Rightarrow> c) = 0
      then (STOP_COOLDOWN, w, [])
      else (SPINNABLE_STOP, w\<lparr>spinnable_data_failcount := 0\<rparr>, []))"

text \<open>
  \<^verbatim>\<open>
  for cell in cells_with_stops:
      forts: list = cell.get("forts", None)
      if not forts:
          continue
      for fort in forts:
          latitude: float = fort.get("latitude", 0.0)
          longitude: float = fort.get("longitude", 0.0)
          if latitude == 0.0 or longitude == 0.0:
              continue
          elif (abs(self.current_location.lat - latitude) <= DISTANCE_TO_STOP_TO_CONSIDER_ON_TOP
                and abs(self.current_location.lng - longitude) <= DISTANCE_TO_STOP_TO_CONSIDER_ON_TOP):
              logger.info("Found stop/gym at current location!")
          else:
              continue
          ... (every path of the classification above returns)
  \<close>
  The result is \<open>None\<close> when the loops end without a \<open>return\<close>.
\<close>

fun scan_forts ::
  "WorkerQuests \<Rightarrow> fort list \<Rightarrow> (PositionStopType \<times> WorkerQuests \<times> quest_action list) option" where
  "scan_forts w [] = None"
| "scan_forts w (fort # fs) =
     (let lat' = (case fort_latitude fort of None \<Rightarrow> 0 | Some x \<Rightarrow> x);
          lng' = (case fort_longitude fort of None \<Rightarrow> 0 | Some x \<Rightarrow> x)
      in if lat' = 0 \<or> lng' = 0 then scan_forts w fs
         else if \<bar>lat (current_location w) - lat'\<bar> \<le> DISTANCE_TO_STOP_TO_CONSIDER_ON_TOP
                 \<and> \<bar>lng (current_location w) - lng'\<bar> \<le> DISTANCE_TO_STOP_TO_CONSIDER_ON_TOP
         then Some (classify_fort w fort lat' lng')
         else scan_forts w fs)"

fun scan_cells ::
  "WorkerQuests \<Rightarrow> gmo_cell list \<Rightarrow> (PositionStopType \<times> WorkerQuests \<times> quest_action list) option" where
  "scan_cells w [] = None"
| "scan_cells w (cell # cs) =
     (case forts cell of
        None \<Rightarrow> scan_cells w cs
      | Some fs \<Rightarrow>
          (case scan_forts w fs of
             Some r \<Rightarrow> Some r
           | None \<Rightarrow> scan_cells w cs))"

text \<open>
  What the surroundings give one spinnability check: what
  \<open>_wait_for_data(timestamp, GMO)\<close> returns (with the type \<open>GMO\<close> the data are the entry's
  values), the identifiers of the cells around the current location, the stops
  \<open>PokestopHelper.get_nearby\<close> returns, what \<open>_restart_pogo\<close> does, and \<open>datetime.now()\<close>.
\<close>

record check_env =
  env_gmo_wait :: "LatestReceivedType \<times> proto_data option"
  env_valid_cells :: "int list"
  env_nearby_stops :: "(string \<times> Pokestop) list"
  env_restart_pogo :: "py_error + bool"
  env_now :: real

text \<open>
  \<^verbatim>\<open>
  async def _current_position_has_spinnable_stop(self, timestamp: float) -> PositionStopType:
      type_received, data_received = await self._wait_for_data(
          timestamp=timestamp, proto_to_wait_for=ProtoIdentifier.GMO)
      if type_received != LatestReceivedType.GMO or data_received is None:
          await self._spinnable_data_failure()
          return PositionStopType.GMO_NOT_AVAILABLE
      latest_proto = data_received.get("payload")
      gmo_cells: list = latest_proto.get("cells", None)
      if not gmo_cells:
          await self._spinnable_data_failure()
          return PositionStopType.GMO_EMPTY
      cells_with_stops = \
          self._directly_surrounding_gmo_cells_containing_stops_around_current_position(gmo_cells)
      async with self._db_wrapper as session, session:
          ... (the loops above) ...
          await self._check_if_stop_was_nearby_and_update_location(session, gmo_cells)
          await self._spinnable_data_failure()
          return PositionStopType.NO_FORT
  \<close>
\<close>

definition failed_check ::
  "check_env \<Rightarrow> WorkerQuests \<Rightarrow> PositionStopType \<Rightarrow> quest_action list \<Rightarrow>
   py_error + PositionStopType \<times> WorkerQuests \<times> quest_action list" where
  "failed_check env w res earlier =
     (case spinnable_data_failure (env_restart_pogo env) w of
        Inl e \<Rightarrow> Inl e
      | Inr (w', acts) \<Rightarrow> Inr (res, w', earlier @ acts))"

definition current_position_has_spinnable_stop ::
  "(Location \<Rightarrow> Location \<Rightarrow> real) \<Rightarrow> check_env \<Rightarrow> WorkerQuests \<Rightarrow>
   py_error + PositionStopType \<times> WorkerQuests \<times> quest_action list" where
  "current_position_has_spinnable_stop distance env w =
     (case env_gmo_wait env of
        (type_received, None) \<Rightarrow> failed_check env w GMO_NOT_AVAILABLE []
      | (type_received, Some data_received) \<Rightarrow>
          if type_received \<noteq> Received_GMO then failed_check env w GMO_NOT_AVAILABLE []
          else
            (case payload data_received of
               None \<Rightarrow> Inl AttributeError
             | Some latest_proto \<Rightarrow>
                 (case payload_cells latest_proto of
                    None \<Rightarrow> failed_check env w GMO_EMPTY []
                  | Some gmo_cells \<Rightarrow>
                      if gmo_cells = [] then failed_check env w GMO_EMPTY []
                      else
                        (case surrounding_cells (env_valid_cells env) gmo_cells of
                           Inl e \<Rightarrow> Inl e
                         | Inr cells_with_stops \<Rightarrow>
                             (case scan_cells w cells_with_stops of
                                Some r \<Rightarrow> Inr r
                              | None \<Rightarrow>
                                  (case check_if_stop_was_nearby_and_update_location distance
                                          (env_now env) (env_nearby_stops env) w gmo_cells of
                                     Inl e \<Rightarrow> Inl e
                                   | Inr acts \<Rightarrow> failed_check env w NO_FORT acts))))))"

subsection \<open>\<open>_try_to_open_pokestop\<close>\<close>

text \<open>
  \<open>_wait_for_data\<close> belongs to \<open>MITMBase\<close>, not part of these sources: each call is recorded
  with its timestamp, proto and timeout, and what it returns is given by the
  surroundings.

  A pass of the loop that rechecks the position: \<open>time.time()\<close>, what
  \<open>_wait_for_data(time.time(), GMO, 35)\<close> returns, and the surroundings of the check that
  follows.
\<close>

record recheck =
  re_now :: real
  re_received :: "LatestReceivedType \<times> received_data option"
  re_check :: check_env

text \<open>
  \<^verbatim>\<open>
  recheck_count = 0
  while stop_type in (PositionStopType.GMO_NOT_AVAILABLE, PositionStopType.GMO_EMPTY,
                      PositionStopType.NO_FORT) and not recheck_count > 2:
      recheck_count += 1
      type_received, proto_entry = await self._wait_for_data(
          timestamp=time.time(), proto_to_wait_for=ProtoIdentifier.GMO, timeout=35)
      if type_received != LatestReceivedType.UNDEFINED:
          stop_type = await self._current_position_has_spinnable_stop(timestamp)
  \<close>
  \<open>None\<close> is a loop that has not ended when the list of passes is used up.
\<close>

fun recheck_loop ::
  "(Location \<Rightarrow> Location \<Rightarrow> real) \<Rightarrow> WorkerQuests \<Rightarrow> PositionStopType \<Rightarrow> LatestReceivedType \<Rightarrow>
   int \<Rightarrow> recheck list \<Rightarrow>
   (py_error + PositionStopType \<times> LatestReceivedType \<times> WorkerQuests \<times> quest_action list) option" where
  "recheck_loop distance w stop_type type_received recheck_count [] =
     (if stop_type \<in> set [GMO_NOT_AVAILABLE, GMO_EMPTY, NO_FORT] \<and> \<not> recheck_count > 2
      then None
      else Some (Inr (stop_type, type_received, w, [])))"
| "recheck_loop distance w stop_type type_received recheck_count (r # rs) =
     (if stop_type \<in> set [GMO_NOT_AVAILABLE, GMO_EMPTY, NO_FORT] \<and> \<not> recheck_count > 2
      then
        (let type_received' = fst (re_received r);
             waited = [WaitForData (re_now r) Proto_GMO 35]
         in if type_received' \<noteq> Received_UNDEFINED then
              (case current_position_has_spinnable_stop distance (re_check r) w of
                 Inl e \<Rightarrow> Some (Inl e)
               | Inr (stop_type', w', acts) \<Rightarrow>
                   (case recheck_loop distance w' stop_type' type_received' (recheck_count + 1) rs of
                      None \<Rightarrow> None
                    | Some (Inl e) \<Rightarrow> Some (Inl e)
                    | Some (Inr (st, tr, w'', acts')) \<Rightarrow>
                        Some (Inr (st, tr, w'', waited @ acts @ acts'))))
            else
              (case recheck_loop distance w stop_type type_received' (recheck_count + 1) rs of
                 None \<Rightarrow> None
               | Some (Inl e) \<Rightarrow> Some (Inl e)
               | Some (Inr (st, tr, w'', acts')) \<Rightarrow> Some (Inr (st, tr, w'', waited @ acts'))))
      else Some (Inr (stop_type, type_received, w, [])))"

text \<open>
  An attempt of the loop that opens the stop: \<open>time.time()\<close> at its start, what
  \<open>_wait_for_data\<close> returns, and the exception an awaited call of the attempt raises, if
  one does.
\<close>

record attempt =
  att_now :: real
  att_received :: "LatestReceivedType \<times> received_data option"
  att_raised :: "py_error option"

text \<open>
  \<^verbatim>\<open>
  while type_received != LatestReceivedType.STOP and int(to) < 3:
      self._stop_process_time = math.floor(time.time())
      self._waittime_without_delays = self._stop_process_time
      await self._click_pokestop_at_current_location(self._delay_add)
      await self.set_devicesettings_value(MappingManagerDevicemappingKey.LAST_ACTION_TIME, time.time())
      type_received, proto_entry = await self._wait_for_data(
          timestamp=self._stop_process_time, proto_to_wait_for=ProtoIdentifier.FORT_DETAILS, timeout=15)
      if type_received == LatestReceivedType.GYM:
          await asyncio.sleep(10)
          x, y = ...get_close_main_button_coords...
          await self._communicator.click(int(x), int(y))
          await asyncio.sleep(3)
          await self._turn_map(self._delay_add)
          await asyncio.sleep(1)
      elif type_received == LatestReceivedType.MON:
          await asyncio.sleep(1)
          await asyncio.sleep(.5)
          await self._turn_map(self._delay_add)
          await asyncio.sleep(1)
      elif type_received == LatestReceivedType.UNDEFINED:
          if not self._check_pogo_button():
              await self._check_pogo_close(takescreen=True)
      to += 1
  return type_received
  \<close>
  In the last branch \<open>self._check_pogo_button()\<close> is not awaited: the coroutine object is
  true, and \<open>_check_pogo_close\<close> is never reached.
\<close>

definition attempt_actions :: "attempt \<Rightarrow> quest_action list" where
  "attempt_actions a =
     [ClickPokestop, SetLastActionTime,
      WaitForData (real_of_int \<lfloor>att_now a\<rfloor>) Proto_FORT_DETAILS 15] @
     (if fst (att_received a) = Received_GYM
      then [SleepFor 10, ClickCloseButton, SleepFor 3, TurnMap, SleepFor 1]
      else if fst (att_received a) = Received_MON
      then [SleepFor 1, SleepFor (1 / 2), TurnMap, SleepFor 1]
      else [])"

fun open_loop ::
  "WorkerQuests \<Rightarrow> LatestReceivedType \<Rightarrow> int \<Rightarrow> attempt list \<Rightarrow>
   (py_error + LatestReceivedType \<times> WorkerQuests \<times> quest_action list) option" where
  "open_loop w type_received to [] =
     (if type_received \<noteq> Received_STOP \<and> to < 3 then None
      else Some (Inr (type_received, w, [])))"
| "open_loop w type_received to (a # as) =
     (if type_received \<noteq> Received_STOP \<and> to < 3 then
        (let w1 = w\<lparr>stop_process_time := \<lfloor>att_now a\<rfloor>, waittime_without_delays := \<lfloor>att_now a\<rfloor>\<rparr>
         in case att_raised a of
              Some e \<Rightarrow> Some (Inl e)
            | None \<Rightarrow>
                (case open_loop w1 (fst (att_received a)) (to + 1) as of
                   None \<Rightarrow> None
                 | Some (Inl e) \<Rightarrow> Some (Inl e)
                 | Some (Inr (tr, w', acts)) \<Rightarrow> Some (Inr (tr, w', attempt_actions a @ acts))))
      else Some (Inr (type_received, w, [])))"

text \<open>
  \<^verbatim>\<open>
  async def _try_to_open_pokestop(self, timestamp: float) -> LatestReceivedType:
      to = 0
      type_received: LatestReceivedType = LatestReceivedType.UNDEFINED
      proto_entry = None
      stop_type: PositionStopType = await self._current_position_has_spinnable_stop(timestamp)
      ... (the recheck loop) ...
      if not PositionStopType.type_contains_stop_at_all(stop_type):
          await self._mapping_manager.routemanager_add_coords_to_be_removed(
              self._routemanager_id, self.current_location.lat, self.current_location.lng)
          return type_received
      elif stop_type in (PositionStopType.STOP_CLOSED, PositionStopType.STOP_COOLDOWN,
                         PositionStopType.STOP_DISABLED):
          return type_received
      elif stop_type == PositionStopType.VISITED_STOP_IN_LEVEL_MODE_TO_IGNORE:
          await self._mapping_manager.routemanager_add_coords_to_be_removed(
              self._routemanager_id, self.current_location.lat, self.current_location.lng)
          return type_received
      ... (the loop that opens the stop) ...
  \<close>
\<close>

definition try_to_open_pokestop ::
  "(Location \<Rightarrow> Location \<Rightarrow> real) \<Rightarrow> check_env \<Rightarrow> recheck list \<Rightarrow> attempt list \<Rightarrow> WorkerQuests \<Rightarrow>
   (py_error + LatestReceivedType \<times> WorkerQuests \<times> quest_action list) option" where
  "try_to_open_pokestop distance first_check rechecks attempts w =
     (case current_position_has_spinnable_stop distance first_check w of
        Inl e \<Rightarrow> Some (Inl e)
      | Inr (stop_type0, w0, acts0) \<Rightarrow>
          (case recheck_loop distance w0 stop_type0 Received_UNDEFINED 0 rechecks of
             None \<Rightarrow> None
           | Some (Inl e) \<Rightarrow> Some (Inl e)
           | Some (Inr (stop_type, type_received, w1, acts1)) \<Rightarrow>
               let remove = AddCoordsToBeRemoved (lat (current_location w1)) (lng (current_location w1))
               in if \<not> type_contains_stop_at_all stop_type
                  then Some (Inr (type_received, w1, acts0 @ acts1 @ [remove]))
                  else if stop_type \<in> set [STOP_CLOSED, STOP_COOLDOWN, STOP_DISABLED]
                  then Some (Inr (type_received, w1, acts0 @ acts1))
                  else if stop_type = VISITED_STOP_IN_LEVEL_MODE_TO_IGNORE
                  then Some (Inr (type_received, w1, acts0 @ acts1 @ [remove]))
                  else
                    (case open_loop w1 type_received 0 attempts of
                       None \<Rightarrow> None
                     | Some (Inl e) \<Rightarrow> Some (Inl e)
                     | Some (Inr (tr, w2, acts2)) \<Rightarrow> Some (Inr (tr, w2, acts0 @ acts1 @ acts2)))))"

text \<open>Notions used to state the properties: the position of a fort counts as the current
  one; the forts the check looks at, in the order it does; the first of them at the
  current position.\<close>

definition on_top :: "WorkerQuests \<Rightarrow> fort \<Rightarrow> bool" where
  "on_top w f =
     (case (fort_latitude f, fort_longitude f) of
        (Some la, Some lo) \<Rightarrow>
          la \<noteq> 0 \<and> lo \<noteq> 0
          \<and> \<bar>lat (current_location w) - la\<bar> \<le> DISTANCE_TO_STOP_TO_CONSIDER_ON_TOP
          \<and> \<bar>lng (current_location w) - lo\<bar> \<le> DISTANCE_TO_STOP_TO_CONSIDER_ON_TOP
      | _ \<Rightarrow> False)"

definition forts_of :: "gmo_cell list \<Rightarrow> fort list" where
  "forts_of cs = concat (map (\<lambda>c. case forts c of None \<Rightarrow> [] | Some fs \<Rightarrow> fs) cs)"

definition candidate :: "WorkerQuests \<Rightarrow> gmo_cell list \<Rightarrow> fort option" where
  "candidate w cs = find (on_top w) (forts_of cs)"

definition nonzero_cooldown :: "fort \<Rightarrow> bool" where
  "nonzero_cooldown f = (case cooldown_complete_ms f of None \<Rightarrow> False | Some c \<Rightarrow> c \<noteq> 0)"

text \<open>A check whose telemetry wait returned the map objects \<open>cs\<close> (a non-empty list of
  cells, all of them around the current location).\<close>

definition gmo_env :: "gmo_cell list \<Rightarrow> check_env" where
  "gmo_env cs =
     \<lparr>env_gmo_wait =
        (Received_GMO,
         Some \<lparr>payload = Some \<lparr>payload_cells = Some cs, payload_type = None, payload_result = None,
                               items_awarded = None, quest_type = None, inventory_delta = None\<rparr>\<rparr>),
      env_valid_cells = map (\<lambda>c. case cell_id c of None \<Rightarrow> 0 | Some i \<Rightarrow> i) cs,
      env_nearby_stops = [],
      env_restart_pogo = Inr True,
      env_now = 0\<rparr>"

text \<open>The coordinates the scan reads from a fort (\<open>fort.get("latitude", 0.0)\<close>), and what the
  classification above answers for a fort whose cooldown is not zero: the checks that
  come before the cooldown check win in their order.\<close>

definition the_lat :: "fort \<Rightarrow> real" where
  "the_lat f = (case fort_latitude f of None \<Rightarrow> 0 | Some x \<Rightarrow> x)"

definition the_lng :: "fort \<Rightarrow> real" where
  "the_lng f = (case fort_longitude f of None \<Rightarrow> 0 | Some x \<Rightarrow> x)"


text \<open>The identifiers of the forts a list of cells holds.\<close>

definition telemetry_ids :: "gmo_cell list \<Rightarrow> string list" where
  "telemetry_ids cs =
     concat (map (\<lambda>f. case fort_id f of None \<Rightarrow> [] | Some i \<Rightarrow> [i]) (forts_of cs))"

text \<open>Concrete values for the examples: a worker at (1, 1) that has counted five
  failures; a stop at that position; a cell that holds one fort; a stored stop at that
  position; a payload of fort details.\<close>

definition example_worker :: WorkerQuests where
  "example_worker =
     \<lparr>current_location = \<lparr>lat = 1, lng = 1\<rparr>, level_mode = False, ignore_spinned_stops = False,
      spinnable_data_failcount = 5, stop_process_time = 0, waittime_without_delays = 0,
      latest_quest = 0, delay_add = 0\<rparr>"

definition example_fort :: fort where
  "example_fort =
     \<lparr>fort_id = Some ''stop'', fort_latitude = Some 1, fort_longitude = Some 1,
      fort_type = Some 1, fort_visited = None, fort_enabled = None, fort_closed = None,
      cooldown_complete_ms = None\<rparr>"

definition cell_with :: "fort \<Rightarrow> gmo_cell" where
  "cell_with f = \<lparr>cell_id = Some 7, forts = Some [f]\<rparr>"

definition stored_stop :: "string \<Rightarrow> real option \<Rightarrow> Pokestop" where
  "stored_stop i t = \<lparr>pokestop_id = i, latitude = 1, longitude = 1, last_updated = t\<rparr>"

definition details_payload :: proto_payload where
  "details_payload =
     \<lparr>payload_cells = None, payload_type = Some 1, payload_result = None, items_awarded = None,
      quest_type = None, inventory_delta = None\<rparr>"

definition details_entry :: "real \<Rightarrow> latest_entry" where
  "details_entry t =
     \<lparr>entry_timestamp = Some t, entry_values = Some \<lparr>payload = Some details_payload\<rparr>\<rparr>"

definition example_attempt :: "real \<Rightarrow> LatestReceivedType \<Rightarrow> attempt" where
  "example_attempt t r = \<lparr>att_now = t, att_received = (r, None), att_raised = None\<rparr>"

section \<open>Properties of the telemetry store\<close>

lemma parse_gmo_no_cells:
  "cells gmo = None \<or> cells gmo = Some [] \<Longrightarrow>
   parse_gmo_for_location pd gmo ts = Inr pd"
  by (auto simp: parse_gmo_for_location_def)

text \<open>The stored cells are identifiers in every state: they are at the start, and a write
  keeps them so.\<close>

lemma stored_cells_hashable:
  "list_all hashable (last_cell_ids (init_PlayerData h))"
  "list_all hashable (last_cell_ids pd) \<Longrightarrow> update_latest hu pd key val ts tr loc = Inr pd' \<Longrightarrow>
   list_all hashable (last_cell_ids pd')"
  by (auto simp: init_PlayerData_def update_latest_def parse_gmo_for_location_def Let_def
      split: option.splits if_splits)

text \<open>While no cells are stored, no write stores any: the intersection with the empty
  list is empty.\<close>

lemma no_stored_cells_stay:
  "last_cell_ids pd = [] \<Longrightarrow> update_latest hu pd key val ts tr loc = Inr pd' \<Longrightarrow>
   last_cell_ids pd' = [] \<and> get_last_possibly_moved pd' = get_last_possibly_moved pd"
  by (auto simp: update_latest_def parse_gmo_for_location_def get_last_possibly_moved_def Let_def
      split: option.splits if_splits)



section \<open>Properties of the command transport\<close>

text \<open>
  Claim C10. \<open>get_screenshot\<close> returns false and sends nothing when the quality is below
  10 or above 100; it returns false for every textual reply, also one that contains
  \<open>"OK:"\<close>; and when it returns true the reply was binary and its payload has been written
  to the given path (and the quality was in range).
\<close>

theorem get_screenshot_contract:
  "(quality < 10 \<or> quality > 100 \<longrightarrow>
      get_screenshot c path quality t r wr = ([], Inr False))
   \<and> (r = Inr (Some (Str s)) \<longrightarrow> snd (get_screenshot c path quality t r wr) = Inr False)
   \<and> (snd (get_screenshot c path quality t r wr) = Inr True \<longrightarrow>
        10 \<le> quality \<and> quality \<le> 100 \<and>
        (\<exists>b. r = Inr (Some (Bytes b)) \<and>
             WriteFile path b \<in> set (fst (get_screenshot c path quality t r wr))))"
  by (auto simp: get_screenshot_def run_get_gesponse_def Let_def
           split: sum.splits option.splits MessageTyping.splits if_splits)

theorem get_screenshot_contract_witness:
  "get_screenshot \<lparr>command_timeout = 10\<rparr> ''shot.jpg'' 5 JPEG (Inr (Some (Bytes ''x''))) None
     = ([], Inr False)
   \<and> snd (get_screenshot \<lparr>command_timeout = 10\<rparr> ''shot.jpg'' 70 JPEG
            (Inr (Some (Str ''OK: done''))) None) = Inr False
   \<and> snd (get_screenshot \<lparr>command_timeout = 10\<rparr> ''shot.jpg'' 70 JPEG
            (Inr (Some (Bytes ''x''))) None) = Inr True
   \<and> WriteFile ''shot.jpg'' ''x'' \<in> set (fst (get_screenshot \<lparr>command_timeout = 10\<rparr> ''shot.jpg'' 70 JPEG
            (Inr (Some (Bytes ''x''))) None))"
proof -
  have a: "snd (get_screenshot \<lparr>command_timeout = 10\<rparr> ''shot.jpg'' 70 JPEG
            (Inr (Some (Bytes ''x''))) None) = Inr True"
    by (simp add: get_screenshot_def run_get_gesponse_def Let_def)
  from get_screenshot_contract
    [of 70 "\<lparr>command_timeout = 10\<rparr>" "''shot.jpg''" JPEG "Inr (Some (Bytes ''x''))" None "[]"] a
  have b: "WriteFile ''shot.jpg'' ''x'' \<in> set (fst (get_screenshot \<lparr>command_timeout = 10\<rparr> ''shot.jpg'' 70 JPEG
            (Inr (Some (Bytes ''x''))) None))"
    by auto
  from get_screenshot_contract
    [of 5 "\<lparr>command_timeout = 10\<rparr>" "''shot.jpg''" JPEG "Inr (Some (Bytes ''x''))" None "[]"]
  have c: "get_screenshot \<lparr>command_timeout = 10\<rparr> ''shot.jpg'' 5 JPEG (Inr (Some (Bytes ''x''))) None
     = ([], Inr False)"
    by simp
  from get_screenshot_contract
    [of 70 "\<lparr>command_timeout = 10\<rparr>" "''shot.jpg''" JPEG "Inr (Some (Str ''OK: done''))" None "''OK: done''"]
  have d: "snd (get_screenshot \<lparr>command_timeout = 10\<rparr> ''shot.jpg'' 70 JPEG
            (Inr (Some (Str ''OK: done''))) None) = Inr False"
    by simp
  from a b c d show ?thesis by simp
qed

subsection \<open>The send lock\<close>

lemma bracketed_holds: "bracketed h es \<Longrightarrow> holds es = h"
  by (induction h es rule: bracketed.induct) auto

lemma bracketed_holds_self: "bracketed h es \<Longrightarrow> bracketed (holds es) es"
  using bracketed_holds by blast

lemma serial_step_first:
  assumes "serial (s, a, b)" and "task_step s a = Some (s', a')"
  shows "serial (s', a', b)"
  using assms unfolding serial_def held_def
  by (cases "(s, a)" rule: task_step.cases)
     (auto split: if_splits dest: bracketed_holds intro: bracketed_holds_self)

lemma serial_step_second:
  assumes "serial (s, a, b)" and "task_step s b = Some (s', b')"
  shows "serial (s', a, b')"
  using assms unfolding serial_def held_def
  by (cases "(s, b)" rule: task_step.cases)
     (auto split: if_splits dest: bracketed_holds intro: bracketed_holds_self)

lemma run2_serial: "serial cfg \<Longrightarrow> run2 cfg sch = Some cfg' \<Longrightarrow> serial cfg'"
proof (induction cfg sch rule: run2.induct)
  case (1 cfg)
  then show ?case by simp
next
  case (2 s a b sch)
  then show ?case by (auto split: option.splits dest: serial_step_first)
next
  case (3 s a b sch)
  then show ?case by (auto split: option.splits dest: serial_step_second)
qed

text \<open>Every operation that goes through one of the three private runners holds the send
  lock around its \<open>send_and_wait\<close>.\<close>

lemma runners_bracketed:
  "bracketed False (fst (run_get_gesponse c m timeout r))"
  "bracketed False (fst (run_and_ok_bytes c m t bc r))"
  "bracketed False (fst (run_and_ok c m t r))"
  by (simp_all add: run_get_gesponse_def run_and_ok_bytes_def run_and_ok_def Let_def)

lemma public_operations_bracketed:
  "bracketed False (fst (start_app c p r))"
  "bracketed False (fst (stop_app c p r))"
  "bracketed False (fst (reboot c r))"
  "bracketed False (fst (restart_app c p r))"
  "bracketed False (fst (reset_app_data c p r))"
  "bracketed False (fst (clear_app_cache c p r))"
  "bracketed False (fst (turn_screen_on c r))"
  "bracketed False (fst (click c x y r))"
  "bracketed False (fst (back_button c r))"
  "bracketed False (fst (home_button c r))"
  "bracketed False (fst (enter_text c p r))"
  "bracketed False (fst (get_screensize c r))"
  "bracketed False (fst (uiautomator c r))"
  "bracketed False (fst (terminate_connection c r))"
  "bracketed False (fst (get_screenshot c p q st r wr))"
  by (simp_all add: start_app_def stop_app_def reboot_def restart_app_def reset_app_data_def
        clear_app_cache_def turn_screen_on_def click_def back_button_def home_button_def
        enter_text_def get_screensize_def uiautomator_def terminate_connection_def
        get_screenshot_def run_get_gesponse_def run_and_ok_bytes_def run_and_ok_def Let_def
      split: sum.splits option.splits MessageTyping.splits)

text \<open>Two operations that both hold the send lock around their command never have two
  commands in flight, whatever the schedule.\<close>

lemma bracketed_operations_never_overlap:
  assumes "bracketed False p" and "bracketed False q"
    and "run2 (\<lparr>locked = False, in_flight = 0\<rparr>, Ready p, Ready q) sch = Some (s, a, b)"
  shows "in_flight s \<le> 1"
proof -
  from assms(1,2) have "serial (\<lparr>locked = False, in_flight = 0\<rparr>, Ready p, Ready q)"
    by (auto simp: serial_def held_def intro: bracketed_holds_self dest: bracketed_holds)
  with assms(3) have "serial (s, a, b)"
    by (rule run2_serial[rotated])
  then show ?thesis
    by (auto simp: serial_def held_def)
qed

text \<open>
  Claim C2. Every operation of the communicator that sends a command holds the send lock
  for the whole send-and-await, so that two commands of one session never overlap. The
  code does not do this for \<open>passthrough\<close> (and so for \<open>magisk_off\<close> and \<open>magisk_on\<close>): it
  calls \<open>send_and_wait\<close> without entering \<open>__send_mutex\<close>. While \<open>click\<close> holds the lock
  and awaits its reply, a \<open>passthrough\<close> of another task sends its command at once, and
  two commands are in flight on the session.
\<close>

theorem passthrough_skips_send_mutex:
  "\<not> bracketed False (fst (passthrough c command r))
   \<and> \<not> bracketed False (fst (magisk_off c r))
   \<and> \<not> bracketed False (fst (magisk_on c r))
   \<and> run2 (\<lparr>locked = False, in_flight = 0\<rparr>,
            Ready (fst (click c x y r')), Ready (fst (passthrough c command r)))
        [True, True, False]
      = Some (\<lparr>locked = True, in_flight = 2\<rparr>, Awaiting [Release], Awaiting [])"
  by (cases r)
     (simp_all add: passthrough_def magisk_off_def magisk_on_def click_def run_and_ok_def
        run_and_ok_bytes_def)

section \<open>Properties of the control loop\<close>

subsection \<open>The walker's countdown\<close>





subsection \<open>Screen recovery\<close>

lemma last_classified_append:
  "last_classified (xs @ ys) =
     (case last_classified ys of Some s \<Rightarrow> Some s | None \<Rightarrow> last_classified xs)"
  by (induction xs) (auto split: option.splits action.splits)

lemma quiet_and_then: "quiet s \<Longrightarrow> (\<And>w. quiet (f w)) \<Longrightarrow> quiet (and_then s f)"
proof (cases s)
  case (Continue w acts)
  assume "quiet s" and f: "\<And>w. quiet (f w)"
  with Continue f[of w] show ?thesis
    by (cases "f w") (auto simp: and_then_def last_classified_append)
qed (auto simp: and_then_def)

lemma quiet_await: "quiet (await it h w)"
  by (auto simp: await_def split: sum.splits)

lemma quiet_same_screen_check: "quiet (same_screen_check it s w)"
  unfolding same_screen_check_def Let_def
  by (auto intro!: quiet_and_then quiet_await split: sum.splits)

lemma quiet_handle_screen: "quiet (handle_screen it s w)"
  by (cases s) (auto intro!: quiet_and_then quiet_await simp: Let_def)

lemma quiet_escalate: "quiet (escalate it w)"
  unfolding escalate_def
  by (auto intro!: quiet_and_then quiet_await)

lemma loop_body_found:
  "s = POGO \<or> s = QUEST \<Longrightarrow>
   loop_body it s w = Break (w\<lparr>last_screen_type := s, loginerrorcounter := 0\<rparr>) [] FoundPogoOrQuest"
  by (auto simp: loop_body_def found_check_def and_then_def)

lemma loop_body_quiet: "s \<noteq> POGO \<Longrightarrow> s \<noteq> QUEST \<Longrightarrow> quiet (loop_body it s w)"
  unfolding loop_body_def found_check_def
  by (auto intro!: quiet_and_then quiet_same_screen_check quiet_handle_screen quiet_escalate)

text \<open>The local \<open>screen_type\<close> at the end of the loop is the last classification, or its
  initial value when no classification was made; and the loop was left by its first
  \<open>break\<close> exactly when that value is \<open>POGO\<close> or \<open>QUEST\<close>.\<close>

lemma ensure_loop_final:
  assumes "ensure_loop w s0 its = Some (Inr (w', final, acts, reason))"
    and "s0 \<noteq> POGO" and "s0 \<noteq> QUEST"
  shows "final = (case last_classified acts of None \<Rightarrow> s0 | Some s \<Rightarrow> s)
       \<and> ((reason = FoundPogoOrQuest) = (final = POGO \<or> final = QUEST))"
  using assms
proof (induction its arbitrary: w s0 w' final acts reason)
  case Nil
  then show ?case by simp
next
  case (Cons it its)
  show ?case
  proof (cases "stop_set it")
    case True
    with Cons.prems show ?thesis by auto
  next
    case False
    with Cons.prems obtain s where d: "detected it = Inr s"
      by (cases "detected it") auto
    show ?thesis
    proof (cases "s = POGO \<or> s = QUEST")
      case True
      with Cons.prems False d loop_body_found[OF True, of it w] show ?thesis
        by auto
    next
      case nf: False
      then have q: "quiet (loop_body it s w)" by (simp add: loop_body_quiet)
      show ?thesis
      proof (cases "loop_body it s w")
        case (Raise e)
        with Cons.prems False d show ?thesis by simp
      next
        case (Break w1 a1 r1)
        with Cons.prems False d q nf show ?thesis by auto
      next
        case (Continue w1 a1)
        with Cons.prems False d obtain a2 where
          rec: "ensure_loop w1 s its = Some (Inr (w', final, a2, reason))"
          and acts: "acts = Classified s # a1 @ a2"
          by (auto split: option.splits sum.splits)
        from nf have "s \<noteq> POGO" "s \<noteq> QUEST" by auto
        from Cons.IH[OF rec this] q Continue acts show ?thesis
          by (auto simp: last_classified_append split: option.splits)
      qed
    qed
  qed
qed

text \<open>Once the stop signal is seen at a loop test, the loop ends.\<close>

lemma ensure_loop_returns_on_stop:
  "\<exists>it \<in> set its. stop_set it \<Longrightarrow> ensure_loop w s its \<noteq> None"
proof (induction its arbitrary: w s)
  case Nil
  then show ?case by simp
next
  case (Cons it its)
  show ?case
  proof (cases "stop_set it")
    case True
    then show ?thesis by simp
  next
    case False
    with Cons.prems have "\<exists>it \<in> set its. stop_set it" by auto
    from Cons.IH[OF this] have ih: "\<And>w s. (ensure_loop w s its = None) = False"
      by simp
    show ?thesis
      by (simp add: ih split: sum.splits step.splits option.splits prod.splits)
  qed
qed

text \<open>The loop need not end: while the classifier alternates between the black screen
  and the update prompt, no pass leaves it, however many passes it is given. The
  contract below is about the runs that end.\<close>

lemma black_update_passes:
  assumes "loginerrorcounter w \<le> 1" and "last_screen_type w \<noteq> BLACK"
  shows "loop_body (pass_of BLACK) BLACK w =
           Continue (w\<lparr>same_screen_count := 0, last_screen_type := BLACK\<rparr>) [Sleep 20]"
    and "loop_body (pass_of UPDATE) UPDATE (w\<lparr>same_screen_count := 0, last_screen_type := BLACK\<rparr>) =
           Continue (w\<lparr>same_screen_count := 0, last_screen_type := UPDATE\<rparr>) [Sleep 300]"
  using assms
  by (auto simp: loop_body_def found_check_def same_screen_check_def escalate_def and_then_def
        Let_def)

lemma ensure_loop_need_not_end:
  assumes "loginerrorcounter w \<le> 1" and "last_screen_type w \<noteq> BLACK"
  shows "ensure_loop w s (concat (replicate n [pass_of BLACK, pass_of UPDATE])) = None"
  using assms
proof (induction n arbitrary: w s)
  case 0
  then show ?case by simp
next
  case (Suc n)
  let ?w' = "w\<lparr>same_screen_count := 0, last_screen_type := UPDATE\<rparr>"
  from Suc.prems
  have "ensure_loop ?w' UPDATE (concat (replicate n [pass_of BLACK, pass_of UPDATE])) = None"
    by (intro Suc.IH) simp_all
  with black_update_passes[OF Suc.prems] show ?case
    by (simp add: pass_of_def)
qed

text \<open>
  Claim C7. When \<open>_ensure_pogo_topmost\<close> returns, it returns true exactly when the last
  classification it obtained is \<open>POGO\<close> or \<open>QUEST\<close>, and exactly when the loop was left by
  the \<open>break\<close> of that case. Every other way out (screen frozen, detection disabled, GPS
  error, SN screen, not responding, the login-error escalation, the stop signal, also the
  stop signal before any classification) returns false.
\<close>

theorem ensure_pogo_topmost_exit_contract:
  assumes "ensure_pogo_topmost w its = Some (Inr (ok, w', acts, reason))"
  shows "(ok = (last_classified acts = Some POGO \<or> last_classified acts = Some QUEST))
       \<and> (ok = (reason = FoundPogoOrQuest))"
proof (cases "ensure_loop w UNDEFINED its")
  case None
  with assms show ?thesis by (simp add: ensure_pogo_topmost_def)
next
  case (Some r)
  show ?thesis
  proof (cases r)
    case (Inl e)
    with Some assms show ?thesis by (simp add: ensure_pogo_topmost_def)
  next
    case (Inr t)
    obtain w1 final a1 r1 where t: "t = (w1, final, a1, r1)" by (cases t) auto
    with Some Inr assms have eq: "w1 = w'" "a1 = acts" "r1 = reason"
      and ok: "ok = (final = POGO \<or> final = QUEST)"
      by (auto simp: ensure_pogo_topmost_def split: if_splits)
    from Some Inr t eq have "ensure_loop w UNDEFINED its = Some (Inr (w', final, acts, reason))"
      by simp
    from ensure_loop_final[OF this] ok show ?thesis
      by (auto split: option.splits if_splits)
  qed
qed

lemma run_black_quest:
  "ensure_pogo_topmost init_WorkerBase [pass_of BLACK, pass_of QUEST] =
     Some (Inr (True, init_WorkerBase\<lparr>last_screen_type := QUEST\<rparr>,
                [Classified BLACK, Sleep 20, Classified QUEST], FoundPogoOrQuest))"
  by (simp add: ensure_pogo_topmost_def pass_of_def init_WorkerBase_def loop_body_def
        found_check_def same_screen_check_def escalate_def and_then_def Let_def)

lemma run_gps:
  "ensure_pogo_topmost init_WorkerBase [pass_of GPS, pass_of QUEST] =
     Some (Inr (False, init_WorkerBase,
                [Classified GPS, Call Reboot], GpsReboot))"
  by (simp add: ensure_pogo_topmost_def pass_of_def init_WorkerBase_def loop_body_def
        found_check_def same_screen_check_def escalate_def and_then_def await_def Let_def)

lemma run_stopped:
  "ensure_pogo_topmost init_WorkerBase [(pass_of QUEST)\<lparr>stop_set := True\<rparr>] =
     Some (Inr (False, init_WorkerBase, [], StopSignal))"
  by (simp add: ensure_pogo_topmost_def pass_of_def init_WorkerBase_def)

theorem ensure_pogo_topmost_exit_contract_witness:
  "ensure_pogo_topmost init_WorkerBase [pass_of BLACK, pass_of QUEST] =
     Some (Inr (True, init_WorkerBase\<lparr>last_screen_type := QUEST\<rparr>,
                [Classified BLACK, Sleep 20, Classified QUEST], FoundPogoOrQuest))
   \<and> last_classified [Classified BLACK, Sleep 20, Classified QUEST] = Some QUEST
   \<and> ensure_pogo_topmost init_WorkerBase [pass_of GPS, pass_of QUEST] =
     Some (Inr (False, init_WorkerBase, [Classified GPS, Call Reboot], GpsReboot))
   \<and> last_classified [Classified GPS, Call Reboot] \<noteq> Some QUEST
   \<and> ensure_pogo_topmost init_WorkerBase [(pass_of QUEST)\<lparr>stop_set := True\<rparr>] =
     Some (Inr (False, init_WorkerBase, [], StopSignal))
   \<and> last_classified [] \<noteq> Some QUEST"
  using ensure_pogo_topmost_exit_contract[OF run_black_quest]
    ensure_pogo_topmost_exit_contract[OF run_gps]
    ensure_pogo_topmost_exit_contract[OF run_stopped]
    run_black_quest run_gps run_stopped
  by simp






section \<open>Properties of the interaction protocol\<close>

subsection \<open>The spinnability check\<close>

lemma scan_forts_find:
  "scan_forts w fs = map_option (\<lambda>f. classify_fort w f (the_lat f) (the_lng f)) (find (on_top w) fs)"
  by (induction fs) (auto simp: on_top_def the_lat_def the_lng_def Let_def split: option.splits)

lemma find_append: "find P (xs @ ys) = (case find P xs of Some x \<Rightarrow> Some x | None \<Rightarrow> find P ys)"
  by (induction xs) auto

text \<open>The two loops return the classification of the first fort at the current
  position.\<close>

lemma scan_cells_candidate:
  "scan_cells w cs = map_option (\<lambda>f. classify_fort w f (the_lat f) (the_lng f)) (candidate w cs)"
  by (induction cs)
     (auto simp: candidate_def forts_of_def scan_forts_find find_append split: option.splits)


lemma classify_spinnable:
  "fst (classify_fort w f la lo) = SPINNABLE_STOP \<Longrightarrow> \<not> nonzero_cooldown f"
  by (auto simp: classify_fort_def nonzero_cooldown_def split: option.splits if_splits)


text \<open>The check answers spinnable only for a fort at the current position whose cooldown
  is zero.\<close>

lemma check_spinnable_candidate:
  assumes "current_position_has_spinnable_stop distance env w = Inr (SPINNABLE_STOP, w', acts)"
  shows "\<exists>d p cs cws f. env_gmo_wait env = (Received_GMO, Some d) \<and> payload d = Some p \<and>
           payload_cells p = Some cs \<and> surrounding_cells (env_valid_cells env) cs = Inr cws \<and>
           candidate w cws = Some f \<and> \<not> nonzero_cooldown f"
  using assms
  apply (auto simp: current_position_has_spinnable_stop_def failed_check_def scan_cells_candidate
      split: prod.splits option.splits if_splits sum.splits)
  using classify_spinnable apply (metis fst_conv)
  done






subsection \<open>The failure counter\<close>

text \<open>A failed check (no map objects, no cells, no fort at the position) adds one to the
  counter while it is at most 9; with the counter above 9, that is after ten failures
  counted, the next failure sets it to 0 and restarts the game.\<close>

lemma failed_check_counts:
  "spinnable_data_failcount w \<le> 9 \<Longrightarrow>
   failed_check env w res acts =
     Inr (res, w\<lparr>spinnable_data_failcount := spinnable_data_failcount w + 1\<rparr>, acts)"
  by (simp add: failed_check_def spinnable_data_failure_def)

lemma failed_check_restarts:
  "spinnable_data_failcount w > 9 \<Longrightarrow> env_restart_pogo env = Inr True \<Longrightarrow>
   failed_check env w res acts = Inr (res, w\<lparr>spinnable_data_failcount := 0\<rparr>, acts @ [RestartGame])"
  by (simp add: failed_check_def spinnable_data_failure_def)

text \<open>The classification of a fort never restarts the game. It sets the counter to 0 when
  it answers gym, visited-to-ignore or spinnable, and leaves the worker as it is when it
  answers disabled, closed or on-cooldown.\<close>

lemma classify_fort_failcount:
  "classify_fort w f la lo = (st, w', acts) \<Longrightarrow>
   RestartGame \<notin> set acts \<and>
   (if st \<in> {GYM, VISITED_STOP_IN_LEVEL_MODE_TO_IGNORE, SPINNABLE_STOP}
    then w' = w\<lparr>spinnable_data_failcount := 0\<rparr> else w' = w)"
  by (auto simp: classify_fort_def split: if_splits)

text \<open>
  Claim C8. Failed checks count up and the failure after ten counted restarts the game
  and resets the counter (the two lemmas above); a successful classification is to reset
  the counter to 0. The code does so for gym, visited-to-ignore and spinnable, and
  returns before the reset for disabled, closed and on-cooldown: with five failures
  counted, a check that finds the stop at the position disabled (or closed, or on
  cooldown) leaves the counter at 5.
\<close>

theorem failcount_kept_on_disabled_closed_cooldown:
  "spinnable_data_failcount example_worker = 5
   \<and> current_position_has_spinnable_stop d
        (gmo_env [cell_with (example_fort\<lparr>fort_enabled := Some False\<rparr>)]) example_worker
       = Inr (STOP_DISABLED, example_worker, [])
   \<and> current_position_has_spinnable_stop d
        (gmo_env [cell_with (example_fort\<lparr>fort_closed := Some True\<rparr>)]) example_worker
       = Inr (STOP_CLOSED, example_worker, [])
   \<and> current_position_has_spinnable_stop d
        (gmo_env [cell_with (example_fort\<lparr>cooldown_complete_ms := Some 5000\<rparr>)]) example_worker
       = Inr (STOP_COOLDOWN, example_worker, [])"
  by (simp add: current_position_has_spinnable_stop_def gmo_env_def cell_with_def
        example_fort_def example_worker_def classify_fort_def
        DISTANCE_TO_STOP_TO_CONSIDER_ON_TOP_def)

subsection \<open>Reconciling stored stops\<close>

lemma reconcile_fort_keeps:
  "kv \<in> set stops \<Longrightarrow> fort_id f \<noteq> Some (fst kv) \<Longrightarrow>
   kv \<in> set (fst (reconcile_fort (stops, acts) f))"
  by (auto simp: reconcile_fort_def Let_def split: option.splits)

lemma foldl_reconcile_fort_keeps:
  "kv \<in> set (fst st) \<Longrightarrow> \<forall>f \<in> set fs. fort_id f \<noteq> Some (fst kv) \<Longrightarrow>
   kv \<in> set (fst (foldl reconcile_fort st fs))"
proof (induction fs arbitrary: st)
  case Nil
  then show ?case by simp
next
  case (Cons f fs)
  obtain stops acts where st: "st = (stops, acts)" by (cases st)
  with Cons.prems have "kv \<in> set (fst (reconcile_fort st f))"
    by (auto intro: reconcile_fort_keeps)
  with Cons show ?case by simp
qed

lemma foldl_reconcile_cell_keeps:
  "kv \<in> set (fst st) \<Longrightarrow> fst kv \<notin> set (telemetry_ids cs) \<Longrightarrow>
   kv \<in> set (fst (foldl reconcile_cell st cs))"
proof (induction cs arbitrary: st)
  case Nil
  then show ?case by simp
next
  case (Cons c cs)
  from Cons.prems(2)
  have a: "\<forall>f \<in> set (case forts c of None \<Rightarrow> [] | Some fs \<Rightarrow> fs). fort_id f \<noteq> Some (fst kv)"
    and b: "fst kv \<notin> set (telemetry_ids cs)"
    by (auto simp: telemetry_ids_def forts_of_def)
  from Cons.prems(1) a have "kv \<in> set (fst (reconcile_cell st c))"
    by (auto simp: reconcile_cell_def intro: foldl_reconcile_fort_keeps split: option.splits)
  from Cons.IH[OF this b] show ?case by simp
qed

lemma delete_absent_raises: "rows \<noteq> [] \<Longrightarrow> delete_absent distance now cur rows = Inl TypeError"
  by (cases rows) (auto simp: unpack_pair_def)

text \<open>Whenever a stored nearby stop is absent from the telemetry, the reconciliation
  raises \<open>TypeError\<close> when it reaches its second loop: nothing is deleted, however old and
  however near the stop is.\<close>

lemma absent_stop_raises:
  assumes "kv \<in> set stops" and "fst kv \<notin> set (telemetry_ids gmo_cells)"
  shows "check_if_stop_was_nearby_and_update_location distance now stops w gmo_cells = Inl TypeError"
proof -
  obtain remaining updates where
    f: "foldl reconcile_cell (stops, []) gmo_cells = (remaining, updates)"
    by (cases "foldl reconcile_cell (stops, []) gmo_cells")
  from foldl_reconcile_cell_keeps[of kv "(stops, [])" gmo_cells] assms f
  have "kv \<in> set remaining" by simp
  then have "map snd remaining \<noteq> []" by auto
  from delete_absent_raises[OF this] f show ?thesis
    by (simp add: check_if_stop_was_nearby_and_update_location_def)
qed

text \<open>With no stored stop absent from the telemetry, a stored stop that the telemetry
  shows at another position is updated to that position.\<close>

lemma moved_stop_updated:
  "check_if_stop_was_nearby_and_update_location (\<lambda>a b. 0) 1000000
      [(''stop'', (stored_stop ''stop'' (Some 0))\<lparr>latitude := 2\<rparr>)] example_worker
      [cell_with example_fort]
     = Inr [UpdateLocation ''stop'' \<lparr>lat = 1, lng = 1\<rparr>]"
  by (simp add: check_if_stop_was_nearby_and_update_location_def reconcile_cell_def
        reconcile_fort_def cell_with_def example_fort_def stored_stop_def)

text \<open>The spinnability check calls the reconciliation when it finds no fort at the
  position, before it counts the failure: with a stored stop absent from the telemetry
  the check raises and the failure is not counted.\<close>

lemma no_fort_check_raises:
  assumes "env_gmo_wait env = (Received_GMO, Some d)" and "payload d = Some p"
    and "payload_cells p = Some cs" and "cs \<noteq> []"
    and "surrounding_cells (env_valid_cells env) cs = Inr cws"
    and "candidate w cws = None"
    and "kv \<in> set (env_nearby_stops env)" and "fst kv \<notin> set (telemetry_ids cs)"
  shows "current_position_has_spinnable_stop distance env w = Inl TypeError"
  using assms absent_stop_raises[OF assms(7,8)]
  by (simp add: current_position_has_spinnable_stop_def scan_cells_candidate)

text \<open>
  Claim C9. A stored nearby stop that the telemetry no longer holds is to be deleted when
  it was last updated more than 3 days ago and lies within 100 of the device. The code
  iterates over \<open>stops.values()\<close> and unpacks each row into a pair, which raises
  \<open>TypeError\<close>: the stored stop \<open>"gone"\<close>, last updated at time 0 with the clock at 1000000
  (more than eleven days later) and at distance 0, is absent from the telemetry and is
  not deleted; the call raises.
\<close>

theorem absent_stop_not_deleted:
  "check_if_stop_was_nearby_and_update_location (\<lambda>a b. 0) 1000000
      [(''gone'', stored_stop ''gone'' (Some 0))] example_worker [cell_with example_fort]
     = Inl TypeError"
  by (simp add: check_if_stop_was_nearby_and_update_location_def reconcile_cell_def
        reconcile_fort_def cell_with_def example_fort_def unpack_pair_def)

subsection \<open>Opening the stop\<close>

lemma open_loop_attempts:
  assumes "open_loop w tr to atts = Some (Inr (tr', w', acts))"
    and "tr \<noteq> Received_STOP" and "to < 3"
  shows "\<exists>n. 1 \<le> n \<and> int n \<le> 3 - to \<and> n \<le> length atts
           \<and> acts = concat (map attempt_actions (take n atts))
           \<and> stop_process_time w' = \<lfloor>att_now (atts ! (n - 1))\<rfloor>
           \<and> tr' = fst (att_received (atts ! (n - 1)))
           \<and> (int n < 3 - to \<longrightarrow> tr' = Received_STOP)"
  using assms
proof (induction atts arbitrary: w tr to tr' w' acts)
  case Nil
  then show ?case by simp
next
  case (Cons a as)
  let ?w1 = "w\<lparr>stop_process_time := \<lfloor>att_now a\<rfloor>, waittime_without_delays := \<lfloor>att_now a\<rfloor>\<rparr>"
  let ?tr1 = "fst (att_received a)"
  from Cons.prems obtain acts1 where
    rec: "open_loop ?w1 ?tr1 (to + 1) as = Some (Inr (tr', w', acts1))"
    and acts: "acts = attempt_actions a @ acts1"
    by (auto simp: Let_def split: option.splits sum.splits)
  show ?case
  proof (cases "?tr1 \<noteq> Received_STOP \<and> to + 1 < 3")
    case True
    with Cons.IH[OF rec] obtain n where n: "1 \<le> n" "int n \<le> 3 - (to + 1)" "n \<le> length as"
      "acts1 = concat (map attempt_actions (take n as))"
      "stop_process_time w' = \<lfloor>att_now (as ! (n - 1))\<rfloor>"
      "tr' = fst (att_received (as ! (n - 1)))"
      "int n < 3 - (to + 1) \<longrightarrow> tr' = Received_STOP"
      by auto
    with acts show ?thesis
      by (intro exI[of _ "Suc n"]) (auto simp: nth_Cons')
  next
    case False
    with rec have "tr' = ?tr1" "w' = ?w1" "acts1 = []"
      by (cases as; auto)+
    with acts False Cons.prems(3) show ?thesis
      by (intro exI[of _ 1]) auto
  qed
qed

text \<open>The loop ends within the attempts it is given when these are at least three.\<close>

lemma open_loop_ends:
  "3 - to \<le> int (length atts) \<Longrightarrow> open_loop w tr to atts \<noteq> None"
proof (induction atts arbitrary: w tr to)
  case Nil
  then show ?case by simp
next
  case (Cons a as)
  have "3 - (to + 1) \<le> int (length as)" using Cons.prems by simp
  from Cons.IH[OF this]
  have ih: "\<And>w tr. (open_loop w tr (to + 1) as = None) = False" by simp
  show ?case
    by (simp add: ih Let_def split: option.splits sum.splits)
qed

lemma replacement_ge:
  "real_of_int (latest_quest w) \<le> replacement_timestamp w lc lq"
  "lc = Some x \<Longrightarrow> x \<le> replacement_timestamp w lc lq"
  "lq = Some y \<Longrightarrow> y \<le> replacement_timestamp w lc lq"
  by (auto simp: replacement_timestamp_def split: option.splits)

lemma fort_details_accepted:
  assumes "check_for_data_content w lc lq valid latest Proto_FORT_DETAILS ts = Inr (Received_STOP, data)"
  shows "\<exists>e. latest Proto_FORT_DETAILS = Some e \<and> timestamp_of e \<ge> replacement_timestamp w lc lq
           \<and> \<not> newer_entry latest Proto_GYM_INFO ts \<and> \<not> newer_entry latest Proto_ENCOUNTER ts"
  using assms
  by (auto simp: check_for_data_content_def payload_content_def Let_def
      split: if_splits option.splits)

lemma open_after_check:
  assumes "current_position_has_spinnable_stop d fc w = Inr (st0, w0, acts0)"
    and "recheck_loop d w0 st0 Received_UNDEFINED 0 rechecks
           = Some (Inr (SPINNABLE_STOP, tr0, w1, acts1))"
  shows "try_to_open_pokestop d fc rechecks atts w =
           (case open_loop w1 tr0 0 atts of
              None \<Rightarrow> None
            | Some (Inl e) \<Rightarrow> Some (Inl e)
            | Some (Inr (tr, w2, acts2)) \<Rightarrow> Some (Inr (tr, w2, acts0 @ acts1 @ acts2)))"
  using assms
  by (auto simp: try_to_open_pokestop_def type_contains_stop_at_all_def
        split: option.splits sum.splits)

text \<open>When the first check answers spinnable, the recheck loop is not entered.\<close>

lemma no_recheck_after_spinnable:
  "recheck_loop d w0 SPINNABLE_STOP tr 0 rechecks = Some (Inr (SPINNABLE_STOP, tr, w0, []))"
  by (cases rechecks) simp_all

text \<open>
  Claim C3, as the code has it. The spinnability check, at first or in a recheck, has
  answered spinnable (a recheck's telemetry wait asks for map objects and does not return
  stop details). Then \<open>_try_to_open_pokestop\<close> makes at least one and at most three
  attempts and needs no more than three to end; it stops early only when an attempt's
  wait returns stop details. Each attempt records the floor of the clock as the action
  timestamp, taps, and waits for fort details with that timestamp and a timeout of 15
  (\<open>attempt_actions\<close>). A fort-details entry is accepted as stop details only if its
  timestamp is at least the latest of the last quest received, the last cleanup and the
  last quest clear, which replaces the action timestamp in this comparison, and only if
  no gym or encounter entry is at least as new as the action timestamp.
\<close>

theorem open_stop_after_spinnable_check:
  assumes "current_position_has_spinnable_stop d fc w = Inr (st0, w0, acts0)"
    and "recheck_loop d w0 st0 Received_UNDEFINED 0 rechecks
           = Some (Inr (SPINNABLE_STOP, tr0, w1, acts1))"
    and "tr0 \<noteq> Received_STOP"
  shows "(3 \<le> length atts \<longrightarrow> try_to_open_pokestop d fc rechecks atts w \<noteq> None)
       \<and> (\<forall>tr w' acts. try_to_open_pokestop d fc rechecks atts w = Some (Inr (tr, w', acts)) \<longrightarrow>
            (\<exists>n. 1 \<le> n \<and> n \<le> 3 \<and> n \<le> length atts
                 \<and> acts = acts0 @ acts1 @ concat (map attempt_actions (take n atts))
                 \<and> stop_process_time w' = \<lfloor>att_now (atts ! (n - 1))\<rfloor>
                 \<and> tr = fst (att_received (atts ! (n - 1)))
                 \<and> (n < 3 \<longrightarrow> tr = Received_STOP)))
       \<and> (\<forall>wk lc lq valid latest ts data.
            check_for_data_content wk lc lq valid latest Proto_FORT_DETAILS ts
              = Inr (Received_STOP, data) \<longrightarrow>
            (\<exists>e. latest Proto_FORT_DETAILS = Some e
                 \<and> timestamp_of e \<ge> replacement_timestamp wk lc lq
                 \<and> \<not> newer_entry latest Proto_GYM_INFO ts
                 \<and> \<not> newer_entry latest Proto_ENCOUNTER ts))"
proof (intro conjI allI impI)
  assume "3 \<le> length atts"
  then have "open_loop w1 tr0 0 atts \<noteq> None"
    by (intro open_loop_ends) simp
  then show "try_to_open_pokestop d fc rechecks atts w \<noteq> None"
    by (auto simp: open_after_check[OF assms(1,2)] split: option.splits sum.splits)
next
  fix tr w' acts
  assume "try_to_open_pokestop d fc rechecks atts w = Some (Inr (tr, w', acts))"
  then obtain acts2 where l: "open_loop w1 tr0 0 atts = Some (Inr (tr, w', acts2))"
    and a: "acts = acts0 @ acts1 @ acts2"
    by (auto simp: open_after_check[OF assms(1,2)] split: option.splits sum.splits)
  from open_loop_attempts[OF l assms(3)] a
  show "\<exists>n. 1 \<le> n \<and> n \<le> 3 \<and> n \<le> length atts
           \<and> acts = acts0 @ acts1 @ concat (map attempt_actions (take n atts))
           \<and> stop_process_time w' = \<lfloor>att_now (atts ! (n - 1))\<rfloor>
           \<and> tr = fst (att_received (atts ! (n - 1)))
           \<and> (n < 3 \<longrightarrow> tr = Received_STOP)"
    by auto
next
  fix wk lc lq valid latest ts data
  assume "check_for_data_content wk lc lq valid latest Proto_FORT_DETAILS ts
            = Inr (Received_STOP, data)"
  then show "\<exists>e. latest Proto_FORT_DETAILS = Some e
                 \<and> timestamp_of e \<ge> replacement_timestamp wk lc lq
                 \<and> \<not> newer_entry latest Proto_GYM_INFO ts
                 \<and> \<not> newer_entry latest Proto_ENCOUNTER ts"
    by (rule fort_details_accepted)
qed

lemma example_spinnable:
  "current_position_has_spinnable_stop (\<lambda>a b. 0) (gmo_env [cell_with example_fort]) example_worker
     = Inr (SPINNABLE_STOP, example_worker\<lparr>spinnable_data_failcount := 0\<rparr>, [])"
  by (simp add: current_position_has_spinnable_stop_def gmo_env_def cell_with_def
        example_fort_def example_worker_def classify_fort_def
        DISTANCE_TO_STOP_TO_CONSIDER_ON_TOP_def)

lemma example_open:
  "try_to_open_pokestop (\<lambda>a b. 0) (gmo_env [cell_with example_fort]) []
      [example_attempt (10005 / 10) Received_UNDEFINED, example_attempt (10162 / 10) Received_STOP,
       example_attempt 1040 Received_UNDEFINED] example_worker
     = Some (Inr (Received_STOP,
                  example_worker\<lparr>spinnable_data_failcount := 0, stop_process_time := 1016,
                                 waittime_without_delays := 1016\<rparr>,
                  [ClickPokestop, SetLastActionTime, WaitForData 1000 Proto_FORT_DETAILS 15,
                   ClickPokestop, SetLastActionTime, WaitForData 1016 Proto_FORT_DETAILS 15]))"
  unfolding open_after_check[OF example_spinnable no_recheck_after_spinnable]
  by (simp add: example_attempt_def attempt_actions_def example_worker_def)

theorem open_stop_after_spinnable_check_witness:
  "try_to_open_pokestop (\<lambda>a b. 0) (gmo_env [cell_with example_fort]) []
      [example_attempt (10005 / 10) Received_UNDEFINED, example_attempt (10162 / 10) Received_STOP,
       example_attempt 1040 Received_UNDEFINED] example_worker
     = Some (Inr (Received_STOP,
                  example_worker\<lparr>spinnable_data_failcount := 0, stop_process_time := 1016,
                                 waittime_without_delays := 1016\<rparr>,
                  [ClickPokestop, SetLastActionTime, WaitForData 1000 Proto_FORT_DETAILS 15,
                   ClickPokestop, SetLastActionTime, WaitForData 1016 Proto_FORT_DETAILS 15]))
   \<and> (\<exists>n. 1 \<le> n \<and> n \<le> (3::nat)
          \<and> [ClickPokestop, SetLastActionTime, WaitForData 1000 Proto_FORT_DETAILS 15,
              ClickPokestop, SetLastActionTime, WaitForData 1016 Proto_FORT_DETAILS 15]
            = concat (map attempt_actions (take n
                [example_attempt (10005 / 10) Received_UNDEFINED,
                 example_attempt (10162 / 10) Received_STOP,
                 example_attempt 1040 Received_UNDEFINED])))"
  using open_stop_after_spinnable_check[OF example_spinnable no_recheck_after_spinnable,
      where rechecks = "[]"
        and atts = "[example_attempt (10005 / 10) Received_UNDEFINED,
                     example_attempt (10162 / 10) Received_STOP,
                     example_attempt 1040 Received_UNDEFINED]"]
    example_open
  by auto

text \<open>
  The claim as stated fails for the acceptance test: with the action timestamp 1000 and
  no quest, cleanup or quest clear since time 0, a fort-details entry of time 500, older
  than the action, is accepted as stop details.
\<close>

theorem fort_details_older_than_action_counterexample:
  "check_for_data_content example_worker (Some 0) (Some 0) []
      [Proto_FORT_DETAILS \<mapsto> details_entry 500] Proto_FORT_DETAILS 1000
     = Inr (Received_STOP, Some (DataPayload details_payload))
   \<and> timestamp_of (details_entry 500) < 1000"
  by (simp add: check_for_data_content_def payload_content_def newer_entry_def timestamp_of_def
        details_entry_def details_payload_def replacement_timestamp_def example_worker_def)

end
